theory Spec2Isabelle
  imports Complex_Main "HOL-Library.AList"
begin

section \<open>Python values and exceptions\<close>

text \<open>
  The pipeline of \<^verbatim>\<open>src/intelligence/model_pipeline.py\<close> handles untyped data: provider
  configurations (\<^verbatim>\<open>Dict[str, Any]\<close>, loaded from JSON), keyword options and the JSON
  bodies that the backends answer with. They are values of \<open>json\<close>. A dictionary is an
  association list; \<open>map_of\<close> reads it.
\<close>

datatype json =
    JNull
  | JBool bool
  | JInt int
  | JFloat real
  | JStr string
  | JList "json list"
  | JDict "(string \<times> json) list"

text \<open>
  Exceptions are values. \<open>Exception m\<close> is \<^verbatim>\<open>raise Exception(m)\<close> of the source;
  \<open>ClientError\<close> stands for any subclass of \<^verbatim>\<open>Exception\<close> that the HTTP library raises
  (connection failure, timeout, undecodable body). The interpreter's own exceptions carry the
  object they were raised on. All of them are caught by \<^verbatim>\<open>except Exception\<close>; what is not
  (task cancellation, an interrupt) is outside the model.
\<close>

datatype exn =
    KeyError json
  | TypeError json
  | IndexError json
  | AttributeError json string
  | NotImplementedError
  | Exception string
  | ClientError string

type_synonym 'a result = "exn + 'a"

definition rbind :: "'a result \<Rightarrow> ('a \<Rightarrow> 'b result) \<Rightarrow> 'b result" where
  "rbind r k = (case r of Inl e \<Rightarrow> Inl e | Inr x \<Rightarrow> k x)"

text \<open>\<^verbatim>\<open>obj.get(key, default)\<close>: only dictionaries have the method.\<close>

fun py_get :: "json \<Rightarrow> string \<Rightarrow> json \<Rightarrow> json result" where
  "py_get (JDict d) k dflt = Inr (case map_of d k of None \<Rightarrow> dflt | Some v \<Rightarrow> v)"
| "py_get v k dflt = Inl (AttributeError v ''get'')"

text \<open>\<^verbatim>\<open>obj[key]\<close> for a string key.\<close>

fun py_getitem :: "json \<Rightarrow> string \<Rightarrow> json result" where
  "py_getitem (JDict d) k = (case map_of d k of None \<Rightarrow> Inl (KeyError (JStr k)) | Some v \<Rightarrow> Inr v)"
| "py_getitem v k = Inl (TypeError v)"

text \<open>\<^verbatim>\<open>obj[0]\<close>, the only integer subscript of the source.\<close>

fun py_first :: "json \<Rightarrow> json result" where
  "py_first (JList []) = Inl (IndexError (JList []))"
| "py_first (JList (x # xs)) = Inr x"
| "py_first (JStr []) = Inl (IndexError (JStr []))"
| "py_first (JStr (c # cs)) = Inr (JStr [c])"
| "py_first (JDict d) = Inl (KeyError (JInt 0))"
| "py_first v = Inl (TypeError v)"

text \<open>Truth value of an object, as \<^verbatim>\<open>not x\<close> and \<^verbatim>\<open>if x\<close> test it.\<close>

fun py_truthy :: "json \<Rightarrow> bool" where
  "py_truthy JNull = False"
| "py_truthy (JBool b) = b"
| "py_truthy (JInt i) = (i \<noteq> 0)"
| "py_truthy (JFloat r) = (r \<noteq> 0)"
| "py_truthy (JStr s) = (s \<noteq> [])"
| "py_truthy (JList xs) = (xs \<noteq> [])"
| "py_truthy (JDict d) = (d \<noteq> [])"

fun starts_with :: "string \<Rightarrow> string \<Rightarrow> bool" where
  "starts_with [] ys = True"
| "starts_with (x # xs) [] = False"
| "starts_with (x # xs) (y # ys) = (x = y \<and> starts_with xs ys)"

fun substring :: "string \<Rightarrow> string \<Rightarrow> bool" where
  "substring xs [] = (xs = [])"
| "substring xs (y # ys) = (starts_with xs (y # ys) \<or> substring xs ys)"

text \<open>\<^verbatim>\<open>key in obj\<close> for a string key: key membership in a dictionary, element membership
  in a list, substring test in a string, \<^verbatim>\<open>TypeError\<close> otherwise.\<close>

fun py_in :: "string \<Rightarrow> json \<Rightarrow> bool result" where
  "py_in k (JDict d) = Inr (k \<in> set (map fst d))"
| "py_in k (JList xs) = Inr (JStr k \<in> set xs)"
| "py_in k (JStr s) = Inr (substring k s)"
| "py_in k v = Inl (TypeError v)"

section \<open>Data model\<close>

datatype TaskType =
    CODE_ANALYSIS
  | CODE_GENERATION
  | PROBLEM_SOLVING
  | SYSTEM_ADMIN
  | WEB_AUTOMATION
  | GENERAL
  | FAST_QUERY

text \<open>
  The dataclass \<^verbatim>\<open>ModelResponse\<close>. Its annotations are not enforced: \<open>content\<close>,
  \<open>model_used\<close> and \<open>tokens_used\<close> are filled from the backend's JSON or from the
  configuration and hold whatever value is there, so they are \<open>json\<close>. \<open>error\<close> is
  \<^verbatim>\<open>None\<close> or a string.
\<close>

record ModelResponse =
  content :: json
  model_used :: json
  provider :: string
  execution_time :: real
  tokens_used :: json
  confidence :: real
  success :: bool
  error :: "string option"

type_synonym kwargs = "(string \<times> json) list"

definition kwargs_get :: "kwargs \<Rightarrow> string \<Rightarrow> json \<Rightarrow> json" where
  "kwargs_get kw k dflt = (case map_of kw k of None \<Rightarrow> dflt | Some v \<Rightarrow> v)"

section \<open>The world outside the process\<close>

record request =
  url :: string
  headers :: "(string \<times> string) list"
  body :: json

text \<open>What \<^verbatim>\<open>session.post\<close> yields when it does not raise: the status, and what
  \<^verbatim>\<open>await response.json()\<close> and \<^verbatim>\<open>await response.text()\<close> would give.\<close>

record http_response =
  status :: int
  json_body :: "json result"
  text_body :: "string result"

text \<open>The transport handle, \<^verbatim>\<open>aiohttp.ClientSession\<close>: its timeout and whether it is closed.\<close>

record ClientSession =
  timeout_total :: json
  closed :: bool

text \<open>
  The world holds what the source does not determine. \<open>net\<close> answers the \<open>k\<close>-th HTTP
  request of a run, \<open>clock\<close> the \<open>k\<close>-th reading of \<^verbatim>\<open>time.time()\<close>; \<open>str_value\<close>,
  \<open>str_exn\<close> and \<open>split_len\<close> are the interpreter's \<^verbatim>\<open>str(v)\<close>, \<^verbatim>\<open>str(e)\<close> and
  \<^verbatim>\<open>len(s.split())\<close>; \<open>aio_close\<close> is the library's \<^verbatim>\<open>ClientSession.close()\<close>, giving
  the fault it raises, if any, and the session afterwards. All of them are arbitrary.
  \<open>posts\<close> lists the requests sent so far, \<open>clock_reads\<close> counts the clock readings.
\<close>

record world =
  net :: "nat \<Rightarrow> request \<Rightarrow> http_response result"
  clock :: "nat \<Rightarrow> real"
  str_value :: "json \<Rightarrow> string"
  str_exn :: "exn \<Rightarrow> string"
  split_len :: "string \<Rightarrow> int"
  aio_close :: "ClientSession \<Rightarrow> exn option \<times> ClientSession"
  posts :: "request list"
  clock_reads :: nat

text \<open>A computation reads and updates the world and returns a value or raises. The methods of
  the source are coroutines; a call is modelled as run to its end, one call at a time.\<close>

type_synonym 'a io = "world \<Rightarrow> 'a result \<times> world"

definition ioreturn :: "'a \<Rightarrow> 'a io" where
  "ioreturn x = (\<lambda>w. (Inr x, w))"

definition ioraise :: "exn \<Rightarrow> 'a io" where
  "ioraise e = (\<lambda>w. (Inl e, w))"

definition iolift :: "'a result \<Rightarrow> 'a io" where
  "iolift r = (\<lambda>w. (r, w))"

definition iobind :: "'a io \<Rightarrow> ('a \<Rightarrow> 'b io) \<Rightarrow> 'b io" where
  "iobind m k = (\<lambda>w. case m w of (Inl e, w') \<Rightarrow> (Inl e, w') | (Inr x, w') \<Rightarrow> k x w')"

text \<open>\<^verbatim>\<open>try: m except Exception as e: h e\<close>\<close>

definition iocatch :: "'a io \<Rightarrow> (exn \<Rightarrow> 'a io) \<Rightarrow> 'a io" where
  "iocatch m h = (\<lambda>w. case m w of (Inl e, w') \<Rightarrow> h e w' | (Inr x, w') \<Rightarrow> (Inr x, w'))"

text \<open>\<^verbatim>\<open>time.time()\<close>\<close>

definition time_time :: "real io" where
  "time_time = (\<lambda>w. (Inr (clock w (clock_reads w)), w\<lparr>clock_reads := Suc (clock_reads w)\<rparr>))"

text \<open>The text an f-string puts in for a value: a string as it is, anything else by
  \<^verbatim>\<open>str\<close>.\<close>

definition format_value :: "json \<Rightarrow> string io" where
  "format_value v = (\<lambda>w. (Inr (case v of JStr s \<Rightarrow> s | _ \<Rightarrow> str_value w v), w))"

text \<open>\<^verbatim>\<open>str(e)\<close>: the message of an \<^verbatim>\<open>Exception(m)\<close> is \<open>m\<close>.\<close>

definition str_of_exn :: "exn \<Rightarrow> string io" where
  "str_of_exn e = (\<lambda>w. (Inr (case e of Exception m \<Rightarrow> m | _ \<Rightarrow> str_exn w e), w))"

text \<open>\<^verbatim>\<open>len(content.split())\<close>: only a string has \<^verbatim>\<open>split\<close>.\<close>

definition split_count :: "json \<Rightarrow> json io" where
  "split_count v = (\<lambda>w. case v of JStr s \<Rightarrow> (Inr (JInt (split_len w s)), w)
                                 | _ \<Rightarrow> (Inl (AttributeError v ''split''), w))"

text \<open>The call \<^verbatim>\<open>session.post(url, headers=..., json=...)\<close> entered by \<^verbatim>\<open>async with\<close>.\<close>

definition aio_post :: "request \<Rightarrow> http_response io" where
  "aio_post rq = (\<lambda>w. (net w (length (posts w)) rq, w\<lparr>posts := posts w @ [rq]\<rparr>))"

section \<open>Provider adapters\<close>

datatype provider_class =
    ModelProviderBase
  | GroqProvider
  | MistralCodestralProvider
  | OpenRouterProvider
  | HuggingFaceProvider

text \<open>An instance of \<^verbatim>\<open>ModelProvider\<close> or of one of its four subclasses (\<open>cls\<close>); the
  logger is left out, logging is no effect of the model.\<close>

record ModelProvider =
  cls :: provider_class
  name :: string
  config :: json
  session :: "ClientSession option"
  available :: bool

definition ModelProvider_init :: "provider_class \<Rightarrow> string \<Rightarrow> json \<Rightarrow> ModelProvider" where
  "ModelProvider_init c n cfg =
     \<lparr>cls = c, name = n, config = cfg, session = None, available = False\<rparr>"

text \<open>The attribute \<^verbatim>\<open>self.session.post\<close>, looked up before the arguments of the call are
  evaluated: \<^verbatim>\<open>None\<close> has no such attribute.\<close>

definition session_post_attr :: "ModelProvider \<Rightarrow> unit io" where
  "session_post_attr self =
     (case session self of None \<Rightarrow> ioraise (AttributeError JNull ''post'') | Some s \<Rightarrow> ioreturn ())"

definition bearer_headers :: "string \<Rightarrow> (string \<times> string) list" where
  "bearer_headers key =
     [(''Authorization'', ''Bearer '' @ key), (''Content-Type'', ''application/json'')]"

definition GroqProvider_test_connection :: "ModelProvider \<Rightarrow> bool io" where
  "GroqProvider_test_connection self =
     iobind (iolift (py_get (config self) ''api_key'' JNull)) (\<lambda>k.
     if \<not> py_truthy k then ioreturn False
     else iocatch
       (iobind (iolift (py_getitem (config self) ''api_key'')) (\<lambda>key.
        iobind (format_value key) (\<lambda>key_s.
        iobind (iolift (py_getitem (config self) ''models'')) (\<lambda>models.
        iobind (iolift (py_getitem models ''fast'')) (\<lambda>model.
        iobind (session_post_attr self) (\<lambda>_.
        iobind (iolift (py_getitem (config self) ''endpoint'')) (\<lambda>ep.
        iobind (format_value ep) (\<lambda>ep_s.
        iobind (aio_post \<lparr>url = ep_s @ ''/chat/completions'',
                          headers = bearer_headers key_s,
                          body = JDict [(''model'', model),
                                        (''messages'', JList [JDict [(''role'', JStr ''user''),
                                                          (''content'', JStr ''Test connection'')]]),
                                        (''max_tokens'', JInt 10)]\<rparr>) (\<lambda>response.
        ioreturn (status response = 200))))))))))
       (\<lambda>e. ioreturn False))"

text \<open>The failure response that every \<^verbatim>\<open>except\<close> handler of the adapters builds.\<close>

definition failure_response :: "json \<Rightarrow> string \<Rightarrow> real \<Rightarrow> string \<Rightarrow> ModelResponse" where
  "failure_response model prov t msg =
     \<lparr>content = JStr [], model_used = model, provider = prov, execution_time = t,
      tokens_used = JInt 0, confidence = 0, success = False, error = Some msg\<rparr>"

definition chat_payload :: "json \<Rightarrow> string \<Rightarrow> kwargs \<Rightarrow> json" where
  "chat_payload model prompt kw =
     JDict [(''model'', model),
            (''messages'',
               JList [JDict [(''role'', JStr ''system''),
                             (''content'', kwargs_get kw ''system_prompt''
                                (JStr ''You are Agent Zero, an expert system administrator.''))],
                      JDict [(''role'', JStr ''user''), (''content'', JStr prompt)]]),
            (''max_tokens'', kwargs_get kw ''max_tokens'' (JInt 4000)),
            (''temperature'', kwargs_get kw ''temperature'' (JFloat (3 / 10)))]"

text \<open>\<^verbatim>\<open>data["choices"][0]["message"]["content"]\<close>\<close>

definition message_content :: "json \<Rightarrow> json result" where
  "message_content data =
     rbind (py_getitem data ''choices'') (\<lambda>cs.
     rbind (py_first cs) (\<lambda>c.
     rbind (py_getitem c ''message'') (\<lambda>m.
     py_getitem m ''content'')))"

text \<open>\<^verbatim>\<open>data["choices"][0]["text"]\<close>\<close>

definition choice_text :: "json \<Rightarrow> json result" where
  "choice_text data =
     rbind (py_getitem data ''choices'') (\<lambda>cs.
     rbind (py_first cs) (\<lambda>c.
     py_getitem c ''text''))"

text \<open>The model choice of \<^verbatim>\<open>GroqProvider.generate_response\<close>, made before its
  \<^verbatim>\<open>try\<close>.\<close>

definition GroqProvider_select_model :: "ModelProvider \<Rightarrow> TaskType \<Rightarrow> json result" where
  "GroqProvider_select_model self task_type =
     (if task_type = FAST_QUERY then
        rbind (py_getitem (config self) ''models'') (\<lambda>models. py_getitem models ''fast'')
      else if task_type = PROBLEM_SOLVING then
        rbind (py_getitem (config self) ''models'') (\<lambda>models. py_getitem models ''reasoning'')
      else
        rbind (py_getitem (config self) ''models'') (\<lambda>models. py_getitem models ''code''))"

definition GroqProvider_generate_response ::
  "ModelProvider \<Rightarrow> string \<Rightarrow> TaskType \<Rightarrow> kwargs \<Rightarrow> ModelResponse io" where
  "GroqProvider_generate_response self prompt task_type kw =
     iobind time_time (\<lambda>start_time.
     iobind (iolift (GroqProvider_select_model self task_type)) (\<lambda>model.
     iocatch
       (iobind (iolift (py_getitem (config self) ''api_key'')) (\<lambda>key.
        iobind (format_value key) (\<lambda>key_s.
        iobind (session_post_attr self) (\<lambda>_.
        iobind (iolift (py_getitem (config self) ''endpoint'')) (\<lambda>ep.
        iobind (format_value ep) (\<lambda>ep_s.
        iobind (aio_post \<lparr>url = ep_s @ ''/chat/completions'',
                          headers = bearer_headers key_s,
                          body = chat_payload model prompt kw\<rparr>) (\<lambda>response.
        if status response = 200 then
          iobind (iolift (json_body response)) (\<lambda>data.
          iobind time_time (\<lambda>now.
          iobind (iolift (message_content data)) (\<lambda>c.
          iobind (iolift (py_getitem data ''usage'')) (\<lambda>usage.
          iobind (iolift (py_getitem usage ''total_tokens'')) (\<lambda>tokens.
          ioreturn \<lparr>content = c, model_used = model, provider = ''groq'',
                     execution_time = now - start_time, tokens_used = tokens,
                     confidence = 9 / 10, success = True, error = None\<rparr>)))))
        else
          iobind (iolift (text_body response)) (\<lambda>error_text.
          iobind (format_value (JInt (status response))) (\<lambda>st.
          ioraise (Exception (''Groq API error '' @ st @ '': '' @ error_text)))))))))))
       (\<lambda>e.
        iobind time_time (\<lambda>now.
        iobind (str_of_exn e) (\<lambda>msg.
        ioreturn (failure_response model ''groq'' (now - start_time) msg))))))"

definition MistralCodestralProvider_test_connection :: "ModelProvider \<Rightarrow> bool io" where
  "MistralCodestralProvider_test_connection self =
     iobind (iolift (py_get (config self) ''api_key'' JNull)) (\<lambda>k.
     if \<not> py_truthy k then ioreturn False
     else iocatch
       (iobind (iolift (py_getitem (config self) ''api_key'')) (\<lambda>key.
        iobind (format_value key) (\<lambda>key_s.
        iobind (iolift (py_getitem (config self) ''model'')) (\<lambda>model.
        iobind (session_post_attr self) (\<lambda>_.
        iobind (iolift (py_getitem (config self) ''endpoint'')) (\<lambda>ep.
        iobind (format_value ep) (\<lambda>ep_s.
        iobind (aio_post \<lparr>url = ep_s @ ''/fim/completions'',
                          headers = bearer_headers key_s,
                          body = JDict [(''model'', model),
                                        (''prompt'', JStr (''# Test connection'' @ [CHR 0x0A] @
                                            ''def test():'' @ [CHR 0x0A] @ ''    return True'')),
                                        (''max_tokens'', JInt 10)]\<rparr>) (\<lambda>response.
        ioreturn (status response = 200)))))))))
       (\<lambda>e. ioreturn False))"

text \<open>Payload and endpoint path of \<^verbatim>\<open>MistralCodestralProvider\<close>: the chat endpoint for
  analysis, the fill-in-the-middle endpoint for generation. The default of
  \<^verbatim>\<open>kwargs.get("max_tokens", self.config["max_tokens"])\<close> is evaluated in any case.\<close>

definition Codestral_payload ::
  "ModelProvider \<Rightarrow> string \<Rightarrow> TaskType \<Rightarrow> kwargs \<Rightarrow> (json \<times> string) io" where
  "Codestral_payload self prompt task_type kw =
     iobind (iolift (py_getitem (config self) ''model'')) (\<lambda>model.
     iobind (iolift (py_getitem (config self) ''max_tokens'')) (\<lambda>mt.
     iobind (iolift (py_getitem (config self) ''endpoint'')) (\<lambda>ep.
     iobind (format_value ep) (\<lambda>ep_s.
     if task_type = CODE_ANALYSIS then
       ioreturn
         (JDict [(''model'', model),
                 (''messages'',
                    JList [JDict [(''role'', JStr ''user''),
                                  (''content'',
                                     JStr (''Analyse the following code and provide detailed insights:''
                                           @ [CHR 0x0A, CHR 0x0A] @ prompt))]]),
                 (''max_tokens'', kwargs_get kw ''max_tokens'' mt)],
          ep_s @ ''/chat/completions'')
     else
       ioreturn
         (JDict [(''model'', model),
                 (''prompt'', JStr prompt),
                 (''max_tokens'', kwargs_get kw ''max_tokens'' mt),
                 (''temperature'', kwargs_get kw ''temperature'' (JFloat (1 / 10))),
                 (''stop'', kwargs_get kw ''stop'' (JList [JStr [CHR 0x0A, CHR 0x0A]]))],
          ep_s @ ''/fim/completions'')))))"

text \<open>\<^verbatim>\<open>data.get("usage", {}).get("total_tokens", d)\<close>: the attribute \<^verbatim>\<open>get\<close> of the
  usage entry is looked up before the default \<open>d\<close> is computed.\<close>

definition usage_total_tokens :: "json \<Rightarrow> json io \<Rightarrow> json io" where
  "usage_total_tokens data dflt =
     iobind (iolift (py_get data ''usage'' (JDict []))) (\<lambda>usage.
     iobind (iolift (py_get usage ''total_tokens'' JNull)) (\<lambda>_.
     iobind dflt (\<lambda>d.
     iolift (py_get usage ''total_tokens'' d))))"

definition MistralCodestralProvider_generate_response ::
  "ModelProvider \<Rightarrow> string \<Rightarrow> TaskType \<Rightarrow> kwargs \<Rightarrow> ModelResponse io" where
  "MistralCodestralProvider_generate_response self prompt task_type kw =
     iobind time_time (\<lambda>start_time.
     if task_type \<notin> set [CODE_ANALYSIS, CODE_GENERATION] then
       iobind (iolift (py_getitem (config self) ''model'')) (\<lambda>model.
       ioreturn (failure_response model ''mistral_codestral'' 0
                   ''Task type not supported by Codestral''))
     else
       iocatch
         (iobind (iolift (py_getitem (config self) ''api_key'')) (\<lambda>key.
          iobind (format_value key) (\<lambda>key_s.
          iobind (Codestral_payload self prompt task_type kw) (\<lambda>(payload, endpoint).
          iobind (session_post_attr self) (\<lambda>_.
          iobind (aio_post \<lparr>url = endpoint, headers = bearer_headers key_s,
                            body = payload\<rparr>) (\<lambda>response.
          if status response = 200 then
            iobind (iolift (json_body response)) (\<lambda>data.
            iobind time_time (\<lambda>now.
            iobind (if task_type = CODE_ANALYSIS then iolift (message_content data)
                    else iolift (choice_text data)) (\<lambda>c.
            iobind (if task_type = CODE_ANALYSIS then usage_total_tokens data (ioreturn (JInt 0))
                    else usage_total_tokens data (split_count c)) (\<lambda>tokens.
            iobind (iolift (py_getitem (config self) ''model'')) (\<lambda>model.
            ioreturn \<lparr>content = c, model_used = model, provider = ''mistral_codestral'',
                       execution_time = now - start_time, tokens_used = tokens,
                       confidence = 95 / 100, success = True, error = None\<rparr>)))))
          else
            iobind (iolift (text_body response)) (\<lambda>error_text.
            iobind (format_value (JInt (status response))) (\<lambda>st.
            ioraise (Exception (''Codestral API error '' @ st @ '': '' @ error_text))))))))))
         (\<lambda>e.
          iobind time_time (\<lambda>now.
          iobind (iolift (py_getitem (config self) ''model'')) (\<lambda>model.
          iobind (str_of_exn e) (\<lambda>msg.
          ioreturn (failure_response model ''mistral_codestral'' (now - start_time) msg))))))"

definition OpenRouter_headers :: "string \<Rightarrow> (string \<times> string) list" where
  "OpenRouter_headers key =
     [(''Authorization'', ''Bearer '' @ key), (''Content-Type'', ''application/json''),
      (''HTTP-Referer'', ''https://agent-zero.ai''), (''X-Title'', ''Agent Zero'')]"

definition OpenRouterProvider_test_connection :: "ModelProvider \<Rightarrow> bool io" where
  "OpenRouterProvider_test_connection self =
     iobind (iolift (py_get (config self) ''api_key'' JNull)) (\<lambda>k.
     if \<not> py_truthy k then ioreturn False
     else iocatch
       (iobind (iolift (py_getitem (config self) ''api_key'')) (\<lambda>key.
        iobind (format_value key) (\<lambda>key_s.
        iobind (iolift (py_getitem (config self) ''models'')) (\<lambda>models.
        iobind (iolift (py_getitem models ''deepseek'')) (\<lambda>model.
        iobind (session_post_attr self) (\<lambda>_.
        iobind (iolift (py_getitem (config self) ''endpoint'')) (\<lambda>ep.
        iobind (format_value ep) (\<lambda>ep_s.
        iobind (aio_post \<lparr>url = ep_s @ ''/chat/completions'',
                          headers = OpenRouter_headers key_s,
                          body = JDict [(''model'', model),
                                        (''messages'', JList [JDict [(''role'', JStr ''user''),
                                                                     (''content'', JStr ''Test'')]]),
                                        (''max_tokens'', JInt 10)]\<rparr>) (\<lambda>response.
        ioreturn (status response = 200))))))))))
       (\<lambda>e. ioreturn False))"

text \<open>The model choice of \<^verbatim>\<open>OpenRouterProvider.generate_response\<close>, made before its
  \<^verbatim>\<open>try\<close>.\<close>

definition OpenRouterProvider_select_model :: "ModelProvider \<Rightarrow> TaskType \<Rightarrow> json result" where
  "OpenRouterProvider_select_model self task_type =
     (if task_type = PROBLEM_SOLVING then
        rbind (py_getitem (config self) ''models'') (\<lambda>models. py_getitem models ''kimi_k2'')
      else if task_type \<in> set [CODE_ANALYSIS, CODE_GENERATION] then
        rbind (py_getitem (config self) ''models'') (\<lambda>models. py_getitem models ''deepseek'')
      else
        rbind (py_getitem (config self) ''models'') (\<lambda>models. py_getitem models ''deepseek''))"

definition OpenRouterProvider_generate_response ::
  "ModelProvider \<Rightarrow> string \<Rightarrow> TaskType \<Rightarrow> kwargs \<Rightarrow> ModelResponse io" where
  "OpenRouterProvider_generate_response self prompt task_type kw =
     iobind time_time (\<lambda>start_time.
     iobind (iolift (OpenRouterProvider_select_model self task_type)) (\<lambda>model.
     iocatch
       (iobind (iolift (py_getitem (config self) ''api_key'')) (\<lambda>key.
        iobind (format_value key) (\<lambda>key_s.
        iobind (session_post_attr self) (\<lambda>_.
        iobind (iolift (py_getitem (config self) ''endpoint'')) (\<lambda>ep.
        iobind (format_value ep) (\<lambda>ep_s.
        iobind (aio_post \<lparr>url = ep_s @ ''/chat/completions'',
                          headers = OpenRouter_headers key_s,
                          body = chat_payload model prompt kw\<rparr>) (\<lambda>response.
        if status response = 200 then
          iobind (iolift (json_body response)) (\<lambda>data.
          iobind time_time (\<lambda>now.
          iobind (iolift (message_content data)) (\<lambda>c.
          iobind (usage_total_tokens data (ioreturn (JInt 0))) (\<lambda>tokens.
          ioreturn \<lparr>content = c, model_used = model, provider = ''openrouter'',
                     execution_time = now - start_time, tokens_used = tokens,
                     confidence = 85 / 100, success = True, error = None\<rparr>))))
        else
          iobind (iolift (text_body response)) (\<lambda>error_text.
          iobind (format_value (JInt (status response))) (\<lambda>st.
          ioraise (Exception (''OpenRouter API error '' @ st @ '': '' @ error_text)))))))))))
       (\<lambda>e.
        iobind time_time (\<lambda>now.
        iobind (str_of_exn e) (\<lambda>msg.
        ioreturn (failure_response model ''openrouter'' (now - start_time) msg))))))"

definition HuggingFaceProvider_test_connection :: "ModelProvider \<Rightarrow> bool io" where
  "HuggingFaceProvider_test_connection self =
     iobind (iolift (py_get (config self) ''api_key'' JNull)) (\<lambda>k.
     if \<not> py_truthy k then ioreturn False
     else iocatch
       (iobind (iolift (py_getitem (config self) ''api_key'')) (\<lambda>key.
        iobind (format_value key) (\<lambda>key_s.
        iobind (session_post_attr self) (\<lambda>_.
        iobind (iolift (py_getitem (config self) ''endpoint'')) (\<lambda>ep.
        iobind (format_value ep) (\<lambda>ep_s.
        iobind (iolift (py_getitem (config self) ''models'')) (\<lambda>models.
        iobind (iolift (py_getitem models ''embeddings'')) (\<lambda>emb.
        iobind (format_value emb) (\<lambda>emb_s.
        iobind (aio_post \<lparr>url = ep_s @ ''/models/'' @ emb_s,
                          headers = bearer_headers key_s,
                          body = JDict [(''inputs'', JStr ''Test connection''),
                                        (''options'', JDict [(''wait_for_model'', JBool True)])]\<rparr>)
          (\<lambda>response.
        ioreturn (status response = 200)))))))))))
       (\<lambda>e. ioreturn False))"

text \<open>\<^verbatim>\<open>HuggingFaceProvider.generate_response\<close> sends nothing: it declines every category
  but web automation and answers that one with a placeholder.\<close>

definition HuggingFaceProvider_generate_response ::
  "ModelProvider \<Rightarrow> string \<Rightarrow> TaskType \<Rightarrow> kwargs \<Rightarrow> ModelResponse io" where
  "HuggingFaceProvider_generate_response self prompt task_type kw =
     iobind time_time (\<lambda>start_time.
     if task_type \<noteq> WEB_AUTOMATION then
       ioreturn (failure_response (JStr ''N/A'') ''huggingface'' 0
                   ''Task type not supported by HuggingFace provider'')
     else
       iocatch
         (iobind time_time (\<lambda>now.
          iobind (iolift (py_getitem (config self) ''models'')) (\<lambda>models.
          iobind (iolift (py_getitem models ''browser_use'')) (\<lambda>model.
          ioreturn \<lparr>content = JStr ''Web automation task queued for processing'',
                     model_used = model, provider = ''huggingface'',
                     execution_time = now - start_time, tokens_used = JInt 0,
                     confidence = 7 / 10, success = True, error = None\<rparr>))))
         (\<lambda>e.
          iobind time_time (\<lambda>now.
          iobind (str_of_exn e) (\<lambda>msg.
          ioreturn (failure_response (JStr ''N/A'') ''huggingface'' (now - start_time) msg)))))"

text \<open>Method dispatch on the class of the object. The two methods of the base class raise
  \<^verbatim>\<open>NotImplementedError\<close>.\<close>

definition test_connection :: "ModelProvider \<Rightarrow> bool io" where
  "test_connection self =
     (case cls self of
        ModelProviderBase \<Rightarrow> ioraise NotImplementedError
      | GroqProvider \<Rightarrow> GroqProvider_test_connection self
      | MistralCodestralProvider \<Rightarrow> MistralCodestralProvider_test_connection self
      | OpenRouterProvider \<Rightarrow> OpenRouterProvider_test_connection self
      | HuggingFaceProvider \<Rightarrow> HuggingFaceProvider_test_connection self)"

definition generate_response ::
  "ModelProvider \<Rightarrow> string \<Rightarrow> TaskType \<Rightarrow> kwargs \<Rightarrow> ModelResponse io" where
  "generate_response self prompt task_type kw =
     (case cls self of
        ModelProviderBase \<Rightarrow> ioraise NotImplementedError
      | GroqProvider \<Rightarrow> GroqProvider_generate_response self prompt task_type kw
      | MistralCodestralProvider \<Rightarrow>
          MistralCodestralProvider_generate_response self prompt task_type kw
      | OpenRouterProvider \<Rightarrow> OpenRouterProvider_generate_response self prompt task_type kw
      | HuggingFaceProvider \<Rightarrow> HuggingFaceProvider_generate_response self prompt task_type kw)"

text \<open>
  \<^verbatim>\<open>ModelProvider.initialise\<close>: the session is assigned before the probe runs, so it stays
  when the probe raises; \<open>available\<close> is assigned only when the probe returns. The result is
  the returned flag and the object afterwards.
\<close>

definition initialise :: "ModelProvider \<Rightarrow> world \<Rightarrow> (bool \<times> ModelProvider) \<times> world" where
  "initialise self w =
     (case py_get (config self) ''timeout'' (JInt 30) of
        Inl e \<Rightarrow> ((False, self), w)
      | Inr t \<Rightarrow>
          (let self1 = self\<lparr>session := Some \<lparr>timeout_total = t, closed = False\<rparr>\<rparr> in
           case test_connection self1 w of
             (Inl e, w') \<Rightarrow> ((False, self1), w')
           | (Inr b, w') \<Rightarrow> ((b, self1\<lparr>available := b\<rparr>), w')))"

text \<open>
  \<^verbatim>\<open>ModelProvider.cleanup\<close>: \<^verbatim>\<open>if self.session: await self.session.close()\<close>. The
  attribute \<open>session\<close> is not reset. The result is the fault raised, if any, whether the
  call took the session from open to closed, and the object afterwards.
\<close>

definition cleanup :: "ModelProvider \<Rightarrow> world \<Rightarrow> (exn option \<times> bool \<times> ModelProvider)" where
  "cleanup self w =
     (case session self of
        None \<Rightarrow> (None, False, self)
      | Some s \<Rightarrow>
          (case aio_close w s of
             (e, s') \<Rightarrow> (e, \<not> closed s \<and> closed s', self\<lparr>session := Some s'\<rparr>)))"

section \<open>The pipeline\<close>

text \<open>
  \<^verbatim>\<open>MultiModelPipeline\<close>. The dictionary \<open>providers\<close> is an association list in insertion
  order, the order in which the source iterates it; \<open>AList.update\<close> is the assignment
  \<^verbatim>\<open>self.providers[name] = ...\<close>. \<open>routing_strategy\<close> is the dictionary from task types to
  provider names.
\<close>

record MultiModelPipeline =
  pipeline_config :: json
  providers :: "(string \<times> ModelProvider) list"
  routing_strategy :: "TaskType \<Rightarrow> string list option"

definition create_routing_strategy :: "TaskType \<Rightarrow> string list option" where
  "create_routing_strategy =
     map_of [(CODE_ANALYSIS, [''mistral_codestral'', ''groq'', ''openrouter'']),
             (CODE_GENERATION, [''mistral_codestral'', ''groq'', ''openrouter'']),
             (PROBLEM_SOLVING, [''openrouter'', ''groq'']),
             (SYSTEM_ADMIN, [''groq'', ''openrouter'']),
             (WEB_AUTOMATION, [''huggingface'', ''groq'']),
             (FAST_QUERY, [''groq'', ''openrouter'']),
             (GENERAL, [''groq'', ''openrouter''])]"

definition MultiModelPipeline_init :: "json \<Rightarrow> MultiModelPipeline" where
  "MultiModelPipeline_init cfg =
     \<lparr>pipeline_config = cfg, providers = [], routing_strategy = create_routing_strategy\<rparr>"

text \<open>\<^verbatim>\<open>if name in provider_configs: self.providers[name] = Class(name, provider_configs[name], logger)\<close>\<close>

definition register_provider ::
  "provider_class \<Rightarrow> string \<Rightarrow> json \<Rightarrow> (string \<times> ModelProvider) list
     \<Rightarrow> (string \<times> ModelProvider) list result" where
  "register_provider c n provider_configs ps =
     rbind (py_in n provider_configs) (\<lambda>present.
     if present then
       rbind (py_getitem provider_configs n) (\<lambda>cfg.
       Inr (AList.update n (ModelProvider_init c n cfg) ps))
     else Inr ps)"

text \<open>The loop of \<^verbatim>\<open>MultiModelPipeline.initialise\<close> over \<^verbatim>\<open>self.providers.items()\<close>, counting
  the adapters that became available.\<close>

fun initialise_all ::
  "(string \<times> ModelProvider) list \<Rightarrow> nat \<Rightarrow> world
     \<Rightarrow> ((string \<times> ModelProvider) list \<times> nat) \<times> world" where
  "initialise_all [] available_count w = (([], available_count), w)"
| "initialise_all ((n, p) # rest) available_count w =
     (case initialise p w of
        ((b, p'), w') \<Rightarrow>
          (case initialise_all rest (if b then available_count + 1 else available_count) w' of
             ((rest', c), w'') \<Rightarrow> (((n, p') # rest', c), w'')))"

text \<open>\<^verbatim>\<open>MultiModelPipeline.initialise\<close>: the result is what is returned or raised, and the
  pipeline afterwards.\<close>

definition MultiModelPipeline_initialise ::
  "MultiModelPipeline \<Rightarrow> world \<Rightarrow> (bool result \<times> MultiModelPipeline) \<times> world" where
  "MultiModelPipeline_initialise self w =
     (case py_get (pipeline_config self) ''providers'' (JDict []) of
        Inl e \<Rightarrow> ((Inl e, self), w)
      | Inr pcs \<Rightarrow>
     (case register_provider GroqProvider ''groq'' pcs (providers self) of
        Inl e \<Rightarrow> ((Inl e, self), w)
      | Inr ps1 \<Rightarrow>
     (case register_provider MistralCodestralProvider ''mistral_codestral'' pcs ps1 of
        Inl e \<Rightarrow> ((Inl e, self\<lparr>providers := ps1\<rparr>), w)
      | Inr ps2 \<Rightarrow>
     (case register_provider OpenRouterProvider ''openrouter'' pcs ps2 of
        Inl e \<Rightarrow> ((Inl e, self\<lparr>providers := ps2\<rparr>), w)
      | Inr ps3 \<Rightarrow>
     (case register_provider HuggingFaceProvider ''huggingface'' pcs ps3 of
        Inl e \<Rightarrow> ((Inl e, self\<lparr>providers := ps3\<rparr>), w)
      | Inr ps4 \<Rightarrow>
     (case initialise_all ps4 0 w of
        ((ps5, available_count), w') \<Rightarrow>
          ((Inr (available_count > 0), self\<lparr>providers := ps5\<rparr>), w')))))))"

text \<open>The response returned when the routing order is used up.\<close>

definition all_failed_response :: ModelResponse where
  "all_failed_response =
     \<lparr>content = JStr [], model_used = JStr ''none'', provider = ''none'', execution_time = 0,
      tokens_used = JInt 0, confidence = 0, success = False,
      error = Some ''All providers failed or unavailable''\<rparr>"

text \<open>
  The loop of \<^verbatim>\<open>MultiModelPipeline.generate_response\<close> over the routing order. Its
  \<^verbatim>\<open>try\<close> holds the adapter call and the log line of a success, whose formatting of a number
  and a value cannot raise; an exception of the call is logged and the loop goes on. Beside
  the response the loop returns the adapter calls it made, in order, each with what the adapter
  returned or raised: an observation of the run, not a value of the source.
\<close>

type_synonym call_trace = "(string \<times> ModelResponse result) list"

fun dispatch ::
  "MultiModelPipeline \<Rightarrow> string \<Rightarrow> TaskType \<Rightarrow> kwargs \<Rightarrow> string list \<Rightarrow> world
     \<Rightarrow> (ModelResponse \<times> call_trace) \<times> world" where
  "dispatch self prompt task_type kw [] w = ((all_failed_response, []), w)"
| "dispatch self prompt task_type kw (provider_name # rest) w =
     (case map_of (providers self) provider_name of
        None \<Rightarrow> dispatch self prompt task_type kw rest w
      | Some p \<Rightarrow>
          if \<not> available p then dispatch self prompt task_type kw rest w
          else
            (case generate_response p prompt task_type kw w of
               (Inr response, w') \<Rightarrow>
                 if success response then ((response, [(provider_name, Inr response)]), w')
                 else
                   (case dispatch self prompt task_type kw rest w' of
                      ((r, tr), w'') \<Rightarrow> ((r, (provider_name, Inr response) # tr), w''))
             | (Inl e, w') \<Rightarrow>
                 (case dispatch self prompt task_type kw rest w' of
                    ((r, tr), w'') \<Rightarrow> ((r, (provider_name, Inl e) # tr), w''))))"

definition routing_order :: "MultiModelPipeline \<Rightarrow> TaskType \<Rightarrow> string list" where
  "routing_order self task_type =
     (case routing_strategy self task_type of
        None \<Rightarrow> [''groq'', ''openrouter'']
      | Some names \<Rightarrow> names)"

definition MultiModelPipeline_generate_response ::
  "MultiModelPipeline \<Rightarrow> string \<Rightarrow> TaskType \<Rightarrow> kwargs \<Rightarrow> world
     \<Rightarrow> (ModelResponse \<times> call_trace) \<times> world" where
  "MultiModelPipeline_generate_response self prompt task_type kw w =
     dispatch self prompt task_type kw (routing_order self task_type) w"

record provider_health =
  reported_available :: bool
  healthy :: bool

record health_status =
  total_providers :: nat
  available_providers :: nat
  providers_detail :: "(string \<times> provider_health) list"

definition record_health ::
  "string \<Rightarrow> ModelProvider \<Rightarrow> bool \<Rightarrow> health_status \<Rightarrow> health_status" where
  "record_health n p is_healthy hs =
     hs\<lparr>providers_detail :=
          AList.update n \<lparr>reported_available = available p, healthy = is_healthy\<rparr>
            (providers_detail hs),
        available_providers :=
          (if is_healthy then available_providers hs + 1 else available_providers hs)\<rparr>"

text \<open>
  The loop of \<^verbatim>\<open>MultiModelPipeline.health_check\<close>. There is no \<^verbatim>\<open>try\<close> around the probe: a
  probe that raises ends the loop and the exception leaves the method. Beside the result the
  loop returns the probes it made, in order, each with its outcome.
\<close>

type_synonym probe_trace = "(string \<times> bool result) list"

fun health_loop ::
  "(string \<times> ModelProvider) list \<Rightarrow> health_status \<Rightarrow> world
     \<Rightarrow> (health_status result \<times> probe_trace) \<times> world" where
  "health_loop [] hs w = ((Inr hs, []), w)"
| "health_loop ((n, p) # rest) hs w =
     (if available p then
        (case test_connection p w of
           (Inl e, w') \<Rightarrow> ((Inl e, [(n, Inl e)]), w')
         | (Inr is_healthy, w') \<Rightarrow>
             (case health_loop rest (record_health n p is_healthy hs) w' of
                ((r, tr), w'') \<Rightarrow> ((r, (n, Inr is_healthy) # tr), w'')))
      else health_loop rest (record_health n p False hs) w)"

definition health_check ::
  "MultiModelPipeline \<Rightarrow> world \<Rightarrow> (health_status result \<times> probe_trace) \<times> world" where
  "health_check self w =
     health_loop (providers self)
       \<lparr>total_providers = length (providers self), available_providers = 0,
        providers_detail = []\<rparr> w"

record connectivity =
  connected :: bool
  connectivity_error :: "string option"

text \<open>The loop of \<^verbatim>\<open>MultiModelPipeline.check_api_connectivity\<close>, with its \<^verbatim>\<open>try\<close> around
  each probe.\<close>

fun connectivity_loop ::
  "(string \<times> ModelProvider) list \<Rightarrow> (string \<times> connectivity) list \<Rightarrow> world
     \<Rightarrow> (string \<times> connectivity) list \<times> world" where
  "connectivity_loop [] cs w = (cs, w)"
| "connectivity_loop ((n, p) # rest) cs w =
     (case test_connection p w of
        (Inr c, w') \<Rightarrow>
          connectivity_loop rest
            (AList.update n \<lparr>connected = c, connectivity_error = None\<rparr> cs) w'
      | (Inl e, w') \<Rightarrow>
          (case str_of_exn e w' of
             (msg, w'') \<Rightarrow>
               connectivity_loop rest
                 (AList.update n
                    \<lparr>connected = False,
                     connectivity_error = (case msg of Inl _ \<Rightarrow> None | Inr m \<Rightarrow> Some m)\<rparr> cs)
                 w''))"

definition check_api_connectivity ::
  "MultiModelPipeline \<Rightarrow> world \<Rightarrow> (string \<times> connectivity) list \<times> world" where
  "check_api_connectivity self w = connectivity_loop (providers self) [] w"

text \<open>
  The loop of \<^verbatim>\<open>MultiModelPipeline.shutdown\<close> over \<^verbatim>\<open>self.providers.values()\<close>: a cleanup
  that raises ends it. The result is the fault raised, if any, the names of the adapters
  whose session this run took from open to closed, and the adapters afterwards.
\<close>

fun shutdown_loop ::
  "(string \<times> ModelProvider) list \<Rightarrow> world
     \<Rightarrow> exn option \<times> string list \<times> (string \<times> ModelProvider) list" where
  "shutdown_loop [] w = (None, [], [])"
| "shutdown_loop ((n, p) # rest) w =
     (case cleanup p w of
        (Some e, released, p') \<Rightarrow> (Some e, (if released then [n] else []), (n, p') # rest)
      | (None, released, p') \<Rightarrow>
          (case shutdown_loop rest w of
             (e, rels, rest') \<Rightarrow>
               (e, (if released then [n] else []) @ rels, (n, p') # rest')))"

definition shutdown ::
  "MultiModelPipeline \<Rightarrow> world \<Rightarrow> exn option \<times> string list \<times> MultiModelPipeline" where
  "shutdown self w =
     (case shutdown_loop (providers self) w of
        (e, rels, ps) \<Rightarrow> (e, rels, self\<lparr>providers := ps\<rparr>))"

section \<open>Notions the claims are stated in\<close>

text \<open>
  The effective dispatch order in the words of the specification: the routing table's list
  for the category, or the default order when the category is unmapped, filtered to the
  names that are registered and whose adapter has its sticky flag set.
\<close>

definition eligible :: "MultiModelPipeline \<Rightarrow> string \<Rightarrow> bool" where
  "eligible self n = (case map_of (providers self) n of None \<Rightarrow> False | Some p \<Rightarrow> available p)"

definition effective_order :: "MultiModelPipeline \<Rightarrow> TaskType \<Rightarrow> string list" where
  "effective_order self task_type =
     filter (eligible self)
       (case routing_strategy self task_type of
          None \<Rightarrow> [''groq'', ''openrouter'']
        | Some names \<Rightarrow> names)"

text \<open>An adapter call succeeded: it returned a response whose \<open>success\<close> is set.\<close>

fun call_ok :: "ModelResponse result \<Rightarrow> bool" where
  "call_ok (Inl e) = False"
| "call_ok (Inr r) = success r"

text \<open>The invariant of a response in the specification's data model.\<close>

definition well_formed :: "ModelResponse \<Rightarrow> bool" where
  "well_formed r =
     ((\<not> success r \<longrightarrow> content r = JStr [] \<and> error r \<noteq> None) \<and>
      (success r \<longrightarrow> error r = None))"

fun is_dict :: "json \<Rightarrow> bool" where
  "is_dict (JDict d) = True"
| "is_dict v = False"

text \<open>An adapter whose probe cannot raise if it is ever run by the health check: when its
  sticky flag is set, it is one of the four backends and its configuration is a
  dictionary.\<close>

definition probe_safe :: "ModelProvider \<Rightarrow> bool" where
  "probe_safe p = (available p \<longrightarrow> cls p \<noteq> ModelProviderBase \<and> is_dict (config p))"

text \<open>The sticky flags of the registered adapters, by name.\<close>

definition sticky_flags :: "MultiModelPipeline \<Rightarrow> (string \<times> bool) list" where
  "sticky_flags self = map (\<lambda>(n, p). (n, available p)) (providers self)"

text \<open>A session that is there and not closed.\<close>

definition session_open :: "ModelProvider \<Rightarrow> bool" where
  "session_open p = (case session p of None \<Rightarrow> False | Some s \<Rightarrow> \<not> closed s)"

text \<open>
  What the transport library promises of \<^verbatim>\<open>ClientSession.close()\<close>, which is not part of
  the repository: on a closed session it does nothing and raises nothing, and when it returns
  without a fault the session is closed.
\<close>

definition close_idempotent :: "world \<Rightarrow> bool" where
  "close_idempotent w =
     (\<forall>s. (closed s \<longrightarrow> aio_close w s = (None, s)) \<and>
          (fst (aio_close w s) = None \<longrightarrow> closed (snd (aio_close w s))))"

text \<open>The public methods of the pipeline as calls, and the state of pipeline and world after
  a call and after a sequence of calls.\<close>

datatype api_call =
    Initialise
  | GenerateResponse string TaskType kwargs
  | HealthCheck
  | CheckApiConnectivity
  | Shutdown

fun step :: "api_call \<Rightarrow> MultiModelPipeline \<times> world \<Rightarrow> MultiModelPipeline \<times> world" where
  "step Initialise (self, w) =
     (case MultiModelPipeline_initialise self w of ((r, self'), w') \<Rightarrow> (self', w'))"
| "step (GenerateResponse prompt task_type kw) (self, w) =
     (self, snd (MultiModelPipeline_generate_response self prompt task_type kw w))"
| "step HealthCheck (self, w) = (self, snd (health_check self w))"
| "step CheckApiConnectivity (self, w) = (self, snd (check_api_connectivity self w))"
| "step Shutdown (self, w) = (case shutdown self w of (e, rels, self') \<Rightarrow> (self', w))"

fun run :: "api_call list \<Rightarrow> MultiModelPipeline \<times> world \<Rightarrow> MultiModelPipeline \<times> world" where
  "run [] s = s"
| "run (c # cs) s = run cs (step c s)"

text \<open>An adapter that does not handle a category, in the words of the specification, and the
  error text with which its class says so.\<close>

definition declines :: "ModelProvider \<Rightarrow> TaskType \<Rightarrow> bool" where
  "declines self task_type =
     (case cls self of
        MistralCodestralProvider \<Rightarrow> task_type \<notin> {CODE_ANALYSIS, CODE_GENERATION}
      | HuggingFaceProvider \<Rightarrow> task_type \<noteq> WEB_AUTOMATION
      | _ \<Rightarrow> False)"

definition unsupported_message :: "provider_class \<Rightarrow> string" where
  "unsupported_message c =
     (if c = MistralCodestralProvider then ''Task type not supported by Codestral''
      else ''Task type not supported by HuggingFace provider'')"

text \<open>Two properties of a computation, in every world it is run in: every value it returns
  satisfies \<open>Q\<close>; it returns a value and does not raise.\<close>

definition ensures :: "('a \<Rightarrow> bool) \<Rightarrow> 'a io \<Rightarrow> bool" where
  "ensures Q m = (\<forall>w x w'. m w = (Inr x, w') \<longrightarrow> Q x)"

definition returns :: "'a io \<Rightarrow> bool" where
  "returns m = (\<forall>w. \<exists>x w'. m w = (Inr x, w'))"

text \<open>A computation that, run in world \<open>w\<close>, returns no value: it raises.\<close>

definition stalls :: "'a io \<Rightarrow> world \<Rightarrow> bool" where
  "stalls m w = (\<forall>y w'. m w \<noteq> (Inr y, w'))"

section \<open>Example configurations and worlds\<close>

definition demo_session :: ClientSession where
  "demo_session = \<lparr>timeout_total = JInt 30, closed = False\<rparr>"

text \<open>A Groq adapter that passed its probe: the probe needs the model \<^verbatim>\<open>fast\<close> only, and
  this configuration names no other.\<close>

definition demo_groq :: ModelProvider where
  "demo_groq =
     \<lparr>cls = GroqProvider, name = ''groq'',
      config = JDict [(''api_key'', JStr ''gk''), (''endpoint'', JStr ''https://g''),
                      (''models'', JDict [(''fast'', JStr ''llama'')])],
      session = Some demo_session, available = True\<rparr>"

definition demo_openrouter :: ModelProvider where
  "demo_openrouter =
     \<lparr>cls = OpenRouterProvider, name = ''openrouter'',
      config = JDict [(''api_key'', JStr ''ok''), (''endpoint'', JStr ''https://o''),
                      (''models'', JDict [(''kimi_k2'', JStr ''kimi''),
                                          (''deepseek'', JStr ''deepseek'')])],
      session = Some demo_session, available = True\<rparr>"

text \<open>A Codestral adapter whose probe failed at initialisation.\<close>

definition demo_codestral :: ModelProvider where
  "demo_codestral =
     \<lparr>cls = MistralCodestralProvider, name = ''mistral_codestral'',
      config = JDict [(''api_key'', JStr ''mk''), (''endpoint'', JStr ''https://m''),
                      (''model'', JStr ''codestral-latest''), (''max_tokens'', JInt 8192)],
      session = Some demo_session, available = False\<rparr>"

definition demo_huggingface :: ModelProvider where
  "demo_huggingface =
     \<lparr>cls = HuggingFaceProvider, name = ''huggingface'',
      config = JDict [(''api_key'', JStr ''hk''), (''endpoint'', JStr ''https://h''),
                      (''models'', JDict [(''browser_use'', JStr ''dialo''),
                                          (''embeddings'', JStr ''minilm'')])],
      session = Some demo_session, available = True\<rparr>"

definition demo_pipeline :: MultiModelPipeline where
  "demo_pipeline =
     \<lparr>pipeline_config = JDict [],
      providers = [(''groq'', demo_groq), (''mistral_codestral'', demo_codestral),
                   (''openrouter'', demo_openrouter)],
      routing_strategy = create_routing_strategy\<rparr>"

text \<open>A registry that holds, before a Groq adapter, an adapter whose probe raises: an
  instance of the base class with its sticky flag set, as the assignments
  \<^verbatim>\<open>pipeline.providers["custom"] = p\<close> and \<^verbatim>\<open>p.available = True\<close> give.\<close>

definition unguarded_adapter :: ModelProvider where
  "unguarded_adapter =
     \<lparr>cls = ModelProviderBase, name = ''custom'', config = JDict [], session = None,
      available = True\<rparr>"

definition unguarded_pipeline :: MultiModelPipeline where
  "unguarded_pipeline =
     \<lparr>pipeline_config = JDict [],
      providers = [(''custom'', unguarded_adapter), (''groq'', demo_groq)],
      routing_strategy = create_routing_strategy\<rparr>"

text \<open>A configuration naming two backends.\<close>

definition demo_config :: json where
  "demo_config =
     JDict [(''providers'',
       JDict [(''groq'', JDict [(''api_key'', JStr ''gk''), (''endpoint'', JStr ''https://g''),
                               (''models'', JDict [(''fast'', JStr ''llama'')])]),
              (''openrouter'', JDict [(''api_key'', JStr ''ok''), (''endpoint'', JStr ''https://o''),
                               (''models'', JDict [(''kimi_k2'', JStr ''kimi''),
                                                   (''deepseek'', JStr ''deepseek'')])])])]"

definition demo_body :: json where
  "demo_body =
     JDict [(''choices'', JList [JDict [(''message'', JDict [(''content'', JStr ''hello'')])]]),
            (''usage'', JDict [(''total_tokens'', JInt 7)])]"

definition demo_ok :: http_response where
  "demo_ok = \<lparr>status = 200, json_body = Inr demo_body, text_body = Inr []\<rparr>"

definition demo_busy :: http_response where
  "demo_busy = \<lparr>status = 503, json_body = Inl (ClientError ''no json''), text_body = Inr ''busy''\<rparr>"

text \<open>A world whose first request is answered with status 200 and every later one with
  503, and a world without network.\<close>

definition demo_world :: world where
  "demo_world =
     \<lparr>net = (\<lambda>k rq. if k = 0 then Inr demo_ok else Inr demo_busy),
      clock = real,
      str_value = (\<lambda>v. ''503''),
      str_exn = (\<lambda>e. ''fault''),
      split_len = (\<lambda>s. 1),
      aio_close = (\<lambda>s. (None, s\<lparr>closed := True\<rparr>)),
      posts = [], clock_reads = 0\<rparr>"

definition offline_world :: world where
  "offline_world = demo_world\<lparr>net := (\<lambda>k rq. Inl (ClientError ''offline''))\<rparr>"

section \<open>Rules for computations\<close>

lemma iobind_ioreturn: "iobind (ioreturn x) k = k x"
  by (simp add: iobind_def ioreturn_def)

lemma iobind_ioraise: "iobind (ioraise e) k = ioraise e"
  by (simp add: iobind_def ioraise_def)

lemma iolift_Inr: "iolift (Inr x) = ioreturn x"
  by (simp add: iolift_def ioreturn_def)

lemma iolift_Inl: "iolift (Inl e) = ioraise e"
  by (simp add: iolift_def ioraise_def)

lemma ensures_return: "Q x \<Longrightarrow> ensures Q (ioreturn x)"
  by (simp add: ensures_def ioreturn_def)

lemma ensures_raise: "ensures Q (ioraise e)"
  by (simp add: ensures_def ioraise_def)

lemma ensures_bind: "(\<And>x. ensures Q (k x)) \<Longrightarrow> ensures Q (iobind m k)"
  by (auto simp: ensures_def iobind_def split: prod.splits sum.splits)

lemma ensures_catch: "ensures Q m \<Longrightarrow> (\<And>e. ensures Q (h e)) \<Longrightarrow> ensures Q (iocatch m h)"
  by (auto simp: ensures_def iocatch_def split: prod.splits sum.splits)

lemma ensures_if: "(c \<Longrightarrow> ensures Q a) \<Longrightarrow> (\<not> c \<Longrightarrow> ensures Q b) \<Longrightarrow> ensures Q (if c then a else b)"
  by simp

lemma ensures_case_prod: "(\<And>a b. ensures Q (f a b)) \<Longrightarrow> ensures Q (case p of (a, b) \<Rightarrow> f a b)"
  by (cases p) simp

lemmas ensures_intros =
  ensures_bind ensures_catch ensures_if ensures_case_prod ensures_raise ensures_return


section \<open>The adapters build well-formed responses\<close>

lemma well_formed_failure: "well_formed (failure_response m p t msg)"
  by (simp add: well_formed_def failure_response_def)

lemma Groq_wf: "ensures well_formed (GroqProvider_generate_response self prompt T kw)"
  unfolding GroqProvider_generate_response_def
  by (intro ensures_intros well_formed_failure) (simp add: well_formed_def)

lemma OpenRouter_wf: "ensures well_formed (OpenRouterProvider_generate_response self prompt T kw)"
  unfolding OpenRouterProvider_generate_response_def
  by (intro ensures_intros well_formed_failure) (simp add: well_formed_def)

lemma Codestral_wf: "ensures well_formed (MistralCodestralProvider_generate_response self prompt T kw)"
  unfolding MistralCodestralProvider_generate_response_def
  by (intro ensures_intros well_formed_failure) (simp add: well_formed_def)

lemma HuggingFace_wf: "ensures well_formed (HuggingFaceProvider_generate_response self prompt T kw)"
  unfolding HuggingFaceProvider_generate_response_def
  by (intro ensures_intros well_formed_failure) (simp add: well_formed_def)

lemma generate_response_wf: "ensures well_formed (generate_response self prompt T kw)"
  unfolding generate_response_def
  by (cases "cls self") (simp_all add: ensures_raise Groq_wf OpenRouter_wf Codestral_wf HuggingFace_wf)

lemma generate_response_wfD:
  "generate_response self prompt T kw w = (Inr x, w') \<Longrightarrow> well_formed x"
  using generate_response_wf [of self prompt T kw] by (auto simp: ensures_def)

lemma dispatch_wf:
  "dispatch self prompt T kw ns w = ((r, tr), w') \<Longrightarrow> well_formed r"
proof (induction ns arbitrary: w r tr w')
  case Nil
  then show ?case by (auto simp: well_formed_def all_failed_response_def)
next
  case (Cons n ns)
  then show ?case
    by (auto split: option.splits if_splits prod.splits sum.splits dest: generate_response_wfD)
qed


section \<open>The dispatch loop\<close>

lemma dispatch_trace_names:
  "dispatch self prompt T kw ns w = ((r, tr), w') \<Longrightarrow>
   map fst tr = take (length tr) (filter (eligible self) ns)"
proof (induction ns arbitrary: w r tr w')
  case Nil
  then show ?case by auto
next
  case (Cons n ns)
  then show ?case
    by (auto simp: eligible_def split: option.splits if_splits prod.splits sum.splits)
qed

lemma dispatch_ok_is_last:
  "dispatch self prompt T kw ns w = ((r, tr), w') \<Longrightarrow> i < length tr \<Longrightarrow>
   call_ok (snd (tr ! i)) \<Longrightarrow> Suc i = length tr \<and> snd (tr ! i) = Inr r"
proof (induction ns arbitrary: w r tr w' i)
  case Nil
  then show ?case by auto
next
  case (Cons n ns)
  show ?case
  proof (cases "eligible self n")
    case False
    with Cons.prems have "dispatch self prompt T kw ns w = ((r, tr), w')"
      by (auto simp: eligible_def split: option.splits)
    from Cons.IH [OF this Cons.prems(2,3)] show ?thesis .
  next
    case True
    then obtain p where p: "map_of (providers self) n = Some p" "available p"
      by (auto simp: eligible_def split: option.splits)
    obtain x w1 where g: "generate_response p prompt T kw w = (x, w1)"
      by (cases "generate_response p prompt T kw w")
    show ?thesis
    proof (cases "call_ok x")
      case True
      with p g Cons.prems show ?thesis
        by (cases x) auto
    next
      case False
      obtain r2 tr2 w2 where d: "dispatch self prompt T kw ns w1 = ((r2, tr2), w2)"
        by (metis prod.exhaust)
      with p g False Cons.prems(1) have eq: "r = r2" "tr = (n, x) # tr2"
        by (cases x; auto)+
      show ?thesis
      proof (cases i)
        case 0
        with eq False Cons.prems(3) show ?thesis by simp
      next
        case (Suc j)
        with eq Cons.prems(2,3) have "j < length tr2" "call_ok (snd (tr2 ! j))" by auto
        from Cons.IH [OF d this] have "Suc j = length tr2" "snd (tr2 ! j) = Inr r2" by auto
        moreover have "tr ! i = tr2 ! j" using eq Suc by simp
        ultimately show ?thesis using eq Suc by simp
      qed
    qed
  qed
qed

lemma dispatch_exhausted:
  "dispatch self prompt T kw ns w = ((r, tr), w') \<Longrightarrow> \<not> success r \<Longrightarrow>
   r = all_failed_response \<and> map fst tr = filter (eligible self) ns"
proof (induction ns arbitrary: w r tr w')
  case Nil
  then show ?case by auto
next
  case (Cons n ns)
  then show ?case
    by (auto simp: eligible_def split: option.splits if_splits prod.splits sum.splits)
qed

lemma dispatch_success:
  "dispatch self prompt T kw ns w = ((r, tr), w') \<Longrightarrow> success r \<Longrightarrow>
   tr \<noteq> [] \<and> snd (last tr) = Inr r"
proof (induction ns arbitrary: w r tr w')
  case Nil
  then show ?case by (auto simp: all_failed_response_def)
next
  case (Cons n ns)
  then show ?case
    by (auto split: option.splits if_splits prod.splits sum.splits)
qed

lemma routing_effective:
  "filter (eligible self) (routing_order self T) = effective_order self T"
  by (simp add: routing_order_def effective_order_def)


section \<open>Runs of the example pipeline\<close>

lemmas demo_defs =
  MultiModelPipeline_generate_response_def routing_order_def demo_pipeline_def
  create_routing_strategy_def demo_groq_def demo_openrouter_def demo_codestral_def
  generate_response_def GroqProvider_generate_response_def
  OpenRouterProvider_generate_response_def OpenRouterProvider_select_model_def
  GroqProvider_select_model_def str_of_exn_def failure_response_def OpenRouter_headers_def
  offline_world_def demo_world_def demo_session_def demo_ok_def demo_busy_def demo_body_def
  rbind_def iobind_def iolift_def ioreturn_def ioraise_def iocatch_def time_time_def
  format_value_def session_post_attr_def aio_post_def message_content_def chat_payload_def
  kwargs_get_def bearer_headers_def usage_total_tokens_def all_failed_response_def

lemma demo_effective_order:
  "effective_order demo_pipeline FAST_QUERY = [''groq'', ''openrouter'']"
  "effective_order demo_pipeline GENERAL = [''groq'', ''openrouter'']"
  "effective_order demo_pipeline CODE_ANALYSIS = [''groq'', ''openrouter'']"
  by (simp_all add: effective_order_def eligible_def demo_pipeline_def create_routing_strategy_def
      demo_groq_def demo_openrouter_def demo_codestral_def)

lemma demo_fast_query:
  "fst (MultiModelPipeline_generate_response demo_pipeline ''hi'' FAST_QUERY [] demo_world) =
     (\<lparr>content = JStr ''hello'', model_used = JStr ''llama'', provider = ''groq'',
       execution_time = 1, tokens_used = JInt 7, confidence = 9 / 10, success = True,
       error = None\<rparr>,
      [(''groq'', Inr \<lparr>content = JStr ''hello'', model_used = JStr ''llama'', provider = ''groq'',
       execution_time = 1, tokens_used = JInt 7, confidence = 9 / 10, success = True,
       error = None\<rparr>)])"
  by (simp add: demo_defs)

lemma demo_general:
  "fst (MultiModelPipeline_generate_response demo_pipeline ''hi'' GENERAL [] demo_world) =
     (\<lparr>content = JStr ''hello'', model_used = JStr ''deepseek'', provider = ''openrouter'',
       execution_time = 1, tokens_used = JInt 7, confidence = 85 / 100, success = True,
       error = None\<rparr>,
      [(''groq'', Inl (KeyError (JStr ''code''))),
       (''openrouter'', Inr \<lparr>content = JStr ''hello'', model_used = JStr ''deepseek'',
          provider = ''openrouter'', execution_time = 1, tokens_used = JInt 7,
          confidence = 85 / 100, success = True, error = None\<rparr>)])"
  by (simp add: demo_defs)

lemma offline_general:
  "fst (MultiModelPipeline_generate_response demo_pipeline ''hi'' GENERAL [] offline_world) =
     (all_failed_response,
      [(''groq'', Inl (KeyError (JStr ''code''))),
       (''openrouter'', Inr (failure_response (JStr ''deepseek'') ''openrouter'' 1 ''fault''))])"
  by (simp add: demo_defs)

lemma offline_code_analysis:
  "fst (MultiModelPipeline_generate_response demo_pipeline ''hi'' CODE_ANALYSIS [] offline_world) =
     (all_failed_response,
      [(''groq'', Inl (KeyError (JStr ''code''))),
       (''openrouter'', Inr (failure_response (JStr ''deepseek'') ''openrouter'' 1 ''fault''))])"
  by (simp add: demo_defs)

section \<open>Routing and fallback\<close>

text \<open>
  Claim C1. For every task category, the adapters that \<^verbatim>\<open>MultiModelPipeline.generate_response\<close>
  may call are those of the effective order: the routing table's list for the category (the
  default order when it is unmapped), filtered to the registered adapters whose sticky flag is
  set, in the same relative order. The calls made are always an initial part of that order,
  and all of it when no adapter succeeds.
\<close>

theorem dispatch_follows_effective_order:
  assumes "MultiModelPipeline_generate_response self prompt T kw w = ((r, tr), w')"
  shows "map fst tr = take (length tr) (effective_order self T) \<and>
         (\<not> success r \<longrightarrow> map fst tr = effective_order self T)"
  using assms dispatch_trace_names [of self prompt T kw "routing_order self T" w r tr w']
    dispatch_exhausted [of self prompt T kw "routing_order self T" w r tr w']
  by (simp add: MultiModelPipeline_generate_response_def routing_effective)

theorem dispatch_follows_effective_order_witness:
  "effective_order demo_pipeline CODE_ANALYSIS = [''groq'', ''openrouter''] \<and>
   routing_strategy demo_pipeline CODE_ANALYSIS = Some [''mistral_codestral'', ''groq'', ''openrouter''] \<and>
   \<not> success (fst (fst (MultiModelPipeline_generate_response demo_pipeline ''hi'' CODE_ANALYSIS []
        offline_world))) \<and>
   map fst (snd (fst (MultiModelPipeline_generate_response demo_pipeline ''hi'' CODE_ANALYSIS []
        offline_world))) = effective_order demo_pipeline CODE_ANALYSIS"
proof -
  let ?run = "MultiModelPipeline_generate_response demo_pipeline ''hi'' CODE_ANALYSIS [] offline_world"
  have run: "?run = ((fst (fst ?run), snd (fst ?run)), snd ?run)" by simp
  have fail: "\<not> success (fst (fst ?run))"
    by (simp add: offline_code_analysis all_failed_response_def)
  from dispatch_follows_effective_order [OF run] fail
  have "map fst (snd (fst ?run)) = effective_order demo_pipeline CODE_ANALYSIS" by blast
  moreover have "routing_strategy demo_pipeline CODE_ANALYSIS =
      Some [''mistral_codestral'', ''groq'', ''openrouter'']"
    by (simp add: demo_pipeline_def create_routing_strategy_def)
  ultimately show ?thesis using fail
    by (simp add: demo_effective_order)
qed

text \<open>
  Claim C2. When the adapter at position \<open>i\<close> of the effective order returns a response
  with \<open>success\<close> set, that response is what the pipeline returns and the calls end there: no
  adapter at a later position is called.
\<close>

theorem first_success_ends_dispatch:
  assumes "MultiModelPipeline_generate_response self prompt T kw w = ((r, tr), w')"
    and "i < length tr" and "tr ! i = (n, Inr x)" and "success x"
  shows "r = x \<and> length tr = Suc i \<and> map fst tr = take (Suc i) (effective_order self T)"
proof -
  let ?ns = "routing_order self T"
  from assms(1) have d: "dispatch self prompt T kw ?ns w = ((r, tr), w')"
    by (simp add: MultiModelPipeline_generate_response_def)
  from assms(3,4) have "call_ok (snd (tr ! i))" by simp
  from dispatch_ok_is_last [OF d assms(2) this] assms(3)
  have "Suc i = length tr" "x = r" by auto
  with dispatch_trace_names [OF d] show ?thesis
    by (simp add: routing_effective)
qed

theorem first_success_ends_dispatch_witness:
  "effective_order demo_pipeline FAST_QUERY = [''groq'', ''openrouter''] \<and>
   snd (fst (MultiModelPipeline_generate_response demo_pipeline ''hi'' FAST_QUERY [] demo_world)) ! 0
     = (''groq'', Inr (fst (fst (MultiModelPipeline_generate_response demo_pipeline ''hi''
          FAST_QUERY [] demo_world)))) \<and>
   success (fst (fst (MultiModelPipeline_generate_response demo_pipeline ''hi'' FAST_QUERY []
        demo_world))) \<and>
   map fst (snd (fst (MultiModelPipeline_generate_response demo_pipeline ''hi'' FAST_QUERY []
        demo_world))) = [''groq'']"
proof -
  let ?run = "MultiModelPipeline_generate_response demo_pipeline ''hi'' FAST_QUERY [] demo_world"
  have run: "?run = ((fst (fst ?run), snd (fst ?run)), snd ?run)" by simp
  have i: "0 < length (snd (fst ?run))" by (simp add: demo_fast_query)
  have at: "snd (fst ?run) ! 0 = (''groq'', Inr (fst (fst ?run)))" by (simp add: demo_fast_query)
  have ok: "success (fst (fst ?run))" by (simp add: demo_fast_query)
  from first_success_ends_dispatch [OF run i at ok]
  have "map fst (snd (fst ?run)) = take (Suc 0) (effective_order demo_pipeline FAST_QUERY)"
    by blast
  with at ok show ?thesis by (simp add: demo_effective_order)
qed

text \<open>
  Claim C3, as stated, gives the error text of the synthetic failure in lower case; the
  source writes it with a capital letter.
\<close>

theorem exhaustion_error_text_counterexample:
  "error (fst (fst (MultiModelPipeline_generate_response (MultiModelPipeline_init (JDict []))
      ''hi'' GENERAL [] offline_world))) \<noteq> Some ''all providers failed or unavailable''"
  by (simp add: MultiModelPipeline_generate_response_def MultiModelPipeline_init_def
      routing_order_def create_routing_strategy_def all_failed_response_def)

text \<open>
  Claim C3, amended. When every adapter of the effective order was called and failed, or the
  order is empty, the pipeline returns the synthetic failure: \<open>success\<close> false, provider
  and model \<^verbatim>\<open>"none"\<close>, empty content, and the error text
  \<^verbatim>\<open>"All providers failed or unavailable"\<close>.
\<close>

theorem exhaustion_returns_failure:
  assumes "MultiModelPipeline_generate_response self prompt T kw w = ((r, tr), w')"
    and "\<forall>c \<in> set tr. \<not> call_ok (snd c)"
  shows "map fst tr = effective_order self T \<and>
         success r = False \<and> provider r = ''none'' \<and> model_used r = JStr ''none'' \<and>
         content r = JStr [] \<and> error r = Some ''All providers failed or unavailable''"
proof -
  let ?ns = "routing_order self T"
  from assms(1) have d: "dispatch self prompt T kw ?ns w = ((r, tr), w')"
    by (simp add: MultiModelPipeline_generate_response_def)
  have "\<not> success r"
  proof
    assume s: "success r"
    from dispatch_success [OF d s] have "tr \<noteq> []" "snd (last tr) = Inr r" by auto
    with assms(2) s show False
      by (metis call_ok.simps(2) last_in_set)
  qed
  from dispatch_exhausted [OF d this] show ?thesis
    by (simp add: routing_effective all_failed_response_def)
qed

theorem exhaustion_returns_failure_witness:
  "snd (fst (MultiModelPipeline_generate_response demo_pipeline ''hi'' GENERAL [] offline_world)) =
     [(''groq'', Inl (KeyError (JStr ''code''))),
      (''openrouter'', Inr (failure_response (JStr ''deepseek'') ''openrouter'' 1 ''fault''))] \<and>
   error (fst (fst (MultiModelPipeline_generate_response demo_pipeline ''hi'' GENERAL []
        offline_world))) = Some ''All providers failed or unavailable'' \<and>
   provider (fst (fst (MultiModelPipeline_generate_response demo_pipeline ''hi'' GENERAL []
        offline_world))) = ''none''"
proof -
  let ?run = "MultiModelPipeline_generate_response demo_pipeline ''hi'' GENERAL [] offline_world"
  have run: "?run = ((fst (fst ?run), snd (fst ?run)), snd ?run)" by simp
  have tr: "snd (fst ?run) =
     [(''groq'', Inl (KeyError (JStr ''code''))),
      (''openrouter'', Inr (failure_response (JStr ''deepseek'') ''openrouter'' 1 ''fault''))]"
    by (simp add: offline_general)
  have fails: "\<forall>c \<in> set (snd (fst ?run)). \<not> call_ok (snd c)"
    by (simp add: tr failure_response_def)
  from exhaustion_returns_failure [OF run fails] tr show ?thesis by simp
qed

text \<open>
  Claim C4. When the call of an adapter raises, the exception does not leave
  \<^verbatim>\<open>MultiModelPipeline.generate_response\<close>, which returns a response in any case: the
  adapter counts as failed, the next adapter of the effective order is called, and after the
  last one the synthetic failure is returned.
\<close>

theorem adapter_fault_contained:
  assumes "MultiModelPipeline_generate_response self prompt T kw w = ((r, tr), w')"
    and "i < length tr" and "tr ! i = (n, Inl e)"
  shows "n = effective_order self T ! i \<and>
         (Suc i < length (effective_order self T) \<longrightarrow>
            Suc i < length tr \<and> fst (tr ! Suc i) = effective_order self T ! Suc i) \<and>
         (Suc i = length (effective_order self T) \<longrightarrow> r = all_failed_response)"
proof -
  let ?ns = "routing_order self T"
  let ?eff = "effective_order self T"
  from assms(1) have d: "dispatch self prompt T kw ?ns w = ((r, tr), w')"
    by (simp add: MultiModelPipeline_generate_response_def)
  have names: "map fst tr = take (length tr) ?eff"
    using dispatch_trace_names [OF d] by (simp add: routing_effective)
  then have len: "length tr \<le> length ?eff"
    by (metis length_map length_take min.cobounded2 min.commute)
  have nth: "fst (tr ! j) = ?eff ! j" if "j < length tr" for j
  proof -
    have "fst (tr ! j) = map fst tr ! j" using that by simp
    also have "\<dots> = ?eff ! j" using that by (subst names) simp
    finally show ?thesis .
  qed
  have last_case: "r = all_failed_response \<and> length tr = length ?eff" if "Suc i = length tr"
  proof -
    have "\<not> success r"
    proof
      assume s: "success r"
      from dispatch_success [OF d s] have "tr \<noteq> []" "snd (last tr) = Inr r" by auto
      moreover from that have "length tr - 1 = i" by simp
      ultimately show False using assms(3)
        by (simp add: last_conv_nth)
    qed
    from dispatch_exhausted [OF d this] show ?thesis
      by (metis length_map routing_effective)
  qed
  have "n = ?eff ! i" using nth [OF assms(2)] assms(3) by simp
  moreover have "Suc i < length tr \<and> fst (tr ! Suc i) = ?eff ! Suc i" if "Suc i < length ?eff"
  proof -
    have "Suc i < length tr"
    proof (rule ccontr)
      assume "\<not> Suc i < length tr"
      with assms(2) have eq: "Suc i = length tr" by simp
      from last_case [OF eq] eq that show False by simp
    qed
    with nth show ?thesis by simp
  qed
  moreover have "r = all_failed_response" if "Suc i = length ?eff"
  proof -
    from that len assms(2) have "Suc i = length tr" by simp
    from last_case [OF this] show ?thesis by simp
  qed
  ultimately show ?thesis by blast
qed

theorem adapter_fault_contained_witness:
  "snd (fst (MultiModelPipeline_generate_response demo_pipeline ''hi'' GENERAL [] demo_world)) ! 0 =
     (''groq'', Inl (KeyError (JStr ''code''))) \<and>
   effective_order demo_pipeline GENERAL = [''groq'', ''openrouter''] \<and>
   fst (snd (fst (MultiModelPipeline_generate_response demo_pipeline ''hi'' GENERAL [] demo_world)) ! 1)
     = ''openrouter'' \<and>
   provider (fst (fst (MultiModelPipeline_generate_response demo_pipeline ''hi'' GENERAL []
        demo_world))) = ''openrouter''"
proof -
  let ?run = "MultiModelPipeline_generate_response demo_pipeline ''hi'' GENERAL [] demo_world"
  have run: "?run = ((fst (fst ?run), snd (fst ?run)), snd ?run)" by simp
  have i: "0 < length (snd (fst ?run))" by (simp add: demo_general)
  have at: "snd (fst ?run) ! 0 = (''groq'', Inl (KeyError (JStr ''code'')))"
    by (simp add: demo_general)
  from adapter_fault_contained [OF run i at]
  have "Suc 0 < length (effective_order demo_pipeline GENERAL) \<longrightarrow>
        fst (snd (fst ?run) ! Suc 0) = effective_order demo_pipeline GENERAL ! Suc 0" by blast
  then have "fst (snd (fst ?run) ! 1) = ''openrouter''" by (simp add: demo_effective_order)
  with at show ?thesis by (simp add: demo_effective_order demo_general)
qed

section \<open>Responses\<close>

text \<open>
  Claim C5. Every response that an adapter's \<^verbatim>\<open>generate_response\<close> returns, and every
  response that the pipeline's \<^verbatim>\<open>generate_response\<close> returns, is well formed: when
  \<open>success\<close> is false the content is the empty string and the error is not \<^verbatim>\<open>None\<close>;
  when \<open>success\<close> is true the error is \<^verbatim>\<open>None\<close>.
\<close>

theorem responses_well_formed:
  "(generate_response p prompt T kw w = (Inr r, w') \<longrightarrow> well_formed r) \<and>
   (MultiModelPipeline_generate_response self prompt2 T2 kw2 w2 = ((r2, tr), w2') \<longrightarrow>
      well_formed r2)"
  using generate_response_wfD [of p prompt T kw w r w']
    dispatch_wf [of self prompt2 T2 kw2 "routing_order self T2" w2 r2 tr w2']
  by (simp add: MultiModelPipeline_generate_response_def)

lemma demo_openrouter_offline:
  "fst (generate_response demo_openrouter ''hi'' GENERAL [] offline_world) =
     Inr (failure_response (JStr ''deepseek'') ''openrouter'' 1 ''fault'')"
  by (simp add: demo_defs)

theorem responses_well_formed_witness:
  "fst (generate_response demo_openrouter ''hi'' GENERAL [] offline_world) =
     Inr (failure_response (JStr ''deepseek'') ''openrouter'' 1 ''fault'') \<and>
   well_formed (failure_response (JStr ''deepseek'') ''openrouter'' 1 ''fault'') \<and>
   \<not> success (failure_response (JStr ''deepseek'') ''openrouter'' 1 ''fault'') \<and>
   well_formed (fst (fst (MultiModelPipeline_generate_response demo_pipeline ''hi'' FAST_QUERY []
      demo_world))) \<and>
   success (fst (fst (MultiModelPipeline_generate_response demo_pipeline ''hi'' FAST_QUERY []
      demo_world)))"
proof -
  let ?g = "generate_response demo_openrouter ''hi'' GENERAL [] offline_world"
  let ?r = "failure_response (JStr ''deepseek'') ''openrouter'' 1 ''fault''"
  let ?run = "MultiModelPipeline_generate_response demo_pipeline ''hi'' FAST_QUERY [] demo_world"
  have g: "?g = (Inr ?r, snd ?g)"
    using demo_openrouter_offline by (metis prod.collapse)
  have run: "?run = ((fst (fst ?run), snd (fst ?run)), snd ?run)" by simp
  from responses_well_formed [of demo_openrouter "''hi''" GENERAL "[]" offline_world ?r "snd ?g"
      demo_pipeline "''hi''" FAST_QUERY "[]" demo_world "fst (fst ?run)" "snd (fst ?run)" "snd ?run"]
    g run
  have "well_formed ?r" "well_formed (fst (fst ?run))" by blast+
  then show ?thesis
    by (simp add: demo_openrouter_offline demo_fast_query) (simp add: failure_response_def)
qed

text \<open>
  Claim C8, as stated, has the Codestral adapter decline an unsupported category without
  raising, whatever its configuration. The declining branch reads
  \<^verbatim>\<open>self.config["model"]\<close> outside any \<^verbatim>\<open>try\<close>: with a configuration that has no such
  entry the call raises \<^verbatim>\<open>KeyError\<close>.
\<close>

theorem codestral_without_model_counterexample:
  "declines (ModelProvider_init MistralCodestralProvider ''mistral_codestral''
          (JDict [(''api_key'', JStr ''mk'')])) GENERAL \<and>
   fst (generate_response (ModelProvider_init MistralCodestralProvider ''mistral_codestral''
          (JDict [(''api_key'', JStr ''mk'')])) ''hi'' GENERAL [] demo_world) =
     Inl (KeyError (JStr ''model''))"
  by (simp add: generate_response_def MistralCodestralProvider_generate_response_def
      ModelProvider_init_def iobind_def time_time_def iolift_def declines_def)

text \<open>
  Claim C8, amended. An adapter asked for a category it does not handle (Codestral: any but
  code analysis and code generation; HuggingFace: any but web automation) returns a failure
  response with the error text of its class, sends no request and does not raise, for every
  prompt, options and world; for Codestral, provided its configuration has a \<^verbatim>\<open>model\<close>
  entry.
\<close>

theorem unsupported_category_declined:
  assumes "declines self task_type"
    and "cls self = MistralCodestralProvider \<longrightarrow>
           (\<exists>m. py_getitem (config self) ''model'' = Inr m)"
  shows "\<exists>r w'. generate_response self prompt task_type kw w = (Inr r, w') \<and>
           \<not> success r \<and> content r = JStr [] \<and>
           error r = Some (unsupported_message (cls self)) \<and> posts w' = posts w"
proof (cases "cls self")
  case MistralCodestralProvider
  with assms(2) obtain m where "py_getitem (config self) ''model'' = Inr m" by blast
  with MistralCodestralProvider assms(1) show ?thesis
    by (simp add: declines_def generate_response_def
        MistralCodestralProvider_generate_response_def iobind_def time_time_def iolift_def
        ioreturn_def failure_response_def unsupported_message_def)
next
  case HuggingFaceProvider
  with assms show ?thesis
    by (simp add: declines_def generate_response_def
        HuggingFaceProvider_generate_response_def iobind_def time_time_def iolift_def
        ioreturn_def failure_response_def unsupported_message_def)
qed (use assms in \<open>simp_all add: declines_def\<close>)

theorem unsupported_category_declined_witness:
  "declines demo_codestral SYSTEM_ADMIN \<and>
   py_getitem (config demo_codestral) ''model'' = Inr (JStr ''codestral-latest'') \<and>
   fst (generate_response demo_codestral ''hi'' SYSTEM_ADMIN [] offline_world) =
      Inr (failure_response (JStr ''codestral-latest'') ''mistral_codestral'' 0
              ''Task type not supported by Codestral'') \<and>
   (\<exists>r w'. generate_response demo_codestral ''hi'' SYSTEM_ADMIN [] offline_world = (Inr r, w') \<and>
           \<not> success r \<and> content r = JStr [] \<and>
           error r = Some ''Task type not supported by Codestral'' \<and>
           posts w' = posts offline_world) \<and>
   declines demo_huggingface CODE_ANALYSIS \<and>
   (\<exists>r w'. generate_response demo_huggingface ''hi'' CODE_ANALYSIS [] offline_world = (Inr r, w') \<and>
           \<not> success r \<and> content r = JStr [] \<and>
           error r = Some ''Task type not supported by HuggingFace provider'' \<and>
           posts w' = posts offline_world)"
proof -
  have m: "py_getitem (config demo_codestral) ''model'' = Inr (JStr ''codestral-latest'')"
    by (simp add: demo_codestral_def)
  have d1: "declines demo_codestral SYSTEM_ADMIN"
    by (simp add: declines_def demo_codestral_def)
  have d2: "declines demo_huggingface CODE_ANALYSIS"
    by (simp add: declines_def demo_huggingface_def)
  have c: "cls demo_codestral = MistralCodestralProvider" by (simp add: demo_codestral_def)
  have h: "cls demo_huggingface = HuggingFaceProvider" by (simp add: demo_huggingface_def)
  have e: "fst (generate_response demo_codestral ''hi'' SYSTEM_ADMIN [] offline_world) =
      Inr (failure_response (JStr ''codestral-latest'') ''mistral_codestral'' 0
              ''Task type not supported by Codestral'')"
    by (simp add: generate_response_def MistralCodestralProvider_generate_response_def
        demo_codestral_def iobind_def time_time_def iolift_def ioreturn_def)
  from unsupported_category_declined [OF d1, of "''hi''" "[]" offline_world] m
  have 1: "\<exists>r w'. generate_response demo_codestral ''hi'' SYSTEM_ADMIN [] offline_world = (Inr r, w') \<and>
           \<not> success r \<and> content r = JStr [] \<and>
           error r = Some ''Task type not supported by Codestral'' \<and>
           posts w' = posts offline_world"
    by (simp add: c unsupported_message_def)
  from unsupported_category_declined [OF d2, of "''hi''" "[]" offline_world]
  have 2: "\<exists>r w'. generate_response demo_huggingface ''hi'' CODE_ANALYSIS [] offline_world = (Inr r, w') \<and>
           \<not> success r \<and> content r = JStr [] \<and>
           error r = Some ''Task type not supported by HuggingFace provider'' \<and>
           posts w' = posts offline_world"
    by (simp add: h unsupported_message_def)
  from m d1 d2 e 1 2 show ?thesis by blast
qed

section \<open>Adapters that initialisation made available\<close>

lemma returns_return: "returns (ioreturn x)"
  by (simp add: returns_def ioreturn_def)

lemma returns_catch: "(\<And>e. returns (h e)) \<Longrightarrow> returns (iocatch m h)"
  unfolding returns_def iocatch_def
proof
  fix w
  assume h: "\<And>e. \<forall>w. \<exists>x w'. h e w = (Inr x, w')"
  obtain r w1 where m: "m w = (r, w1)" by (cases "m w")
  show "\<exists>x w'. (case m w of (Inl e, w') \<Rightarrow> h e w' | (Inr x, w') \<Rightarrow> (Inr x, w')) = (Inr x, w')"
  proof (cases r)
    case (Inl e)
    with m h [of e] show ?thesis by simp
  next
    case (Inr x)
    with m show ?thesis by simp
  qed
qed

lemma is_dictE: "is_dict c \<Longrightarrow> \<exists>d. c = JDict d"
  by (cases c) simp_all

lemma py_get_Inr_is_dict: "py_get c k dflt = Inr v \<Longrightarrow> is_dict c"
  by (cases c) simp_all

lemma test_connection_returns:
  assumes "cls p \<noteq> ModelProviderBase" and "is_dict (config p)"
  shows "returns (test_connection p)"
proof -
  from assms(2) obtain d where d: "config p = JDict d" by (auto dest: is_dictE)
  show ?thesis
    using assms(1)
    by (cases "cls p")
      (simp_all add: test_connection_def GroqProvider_test_connection_def
        MistralCodestralProvider_test_connection_def OpenRouterProvider_test_connection_def
        HuggingFaceProvider_test_connection_def d iolift_Inr iobind_ioreturn
        returns_return returns_catch)
qed

lemma test_connection_base:
  "cls p = ModelProviderBase \<Longrightarrow> test_connection p w = (Inl NotImplementedError, w)"
  by (simp add: test_connection_def ioraise_def)

lemma initialise_safe:
  assumes "probe_safe p" and "initialise p w = ((b, p'), w')"
  shows "probe_safe p'"
proof (cases "py_get (config p) ''timeout'' (JInt 30)")
  case (Inl e)
  with assms show ?thesis by (simp add: initialise_def)
next
  case (Inr t)
  then have dict: "is_dict (config p)" by (rule py_get_Inr_is_dict)
  let ?p1 = "p\<lparr>session := Some \<lparr>timeout_total = t, closed = False\<rparr>\<rparr>"
  obtain r w1 where tc: "test_connection ?p1 w = (r, w1)" by (cases "test_connection ?p1 w")
  show ?thesis
  proof (cases r)
    case (Inl e)
    with Inr tc assms show ?thesis by (auto simp: initialise_def probe_safe_def)
  next
    case r: (Inr b')
    have "cls p \<noteq> ModelProviderBase"
    proof
      assume "cls p = ModelProviderBase"
      then have "cls ?p1 = ModelProviderBase" by simp
      from test_connection_base [OF this, of w] tc r show False by simp
    qed
    with Inr tc r assms(2) dict show ?thesis by (auto simp: initialise_def probe_safe_def)
  qed
qed

lemma initialise_all_safe:
  "\<forall>(n, p) \<in> set ps. probe_safe p \<Longrightarrow> initialise_all ps c w = ((ps', c'), w') \<Longrightarrow>
   \<forall>(n, p) \<in> set ps'. probe_safe p"
proof (induction ps arbitrary: c w ps' c' w')
  case Nil
  then show ?case by auto
next
  case (Cons a ps)
  obtain n p where a: "a = (n, p)" by (cases a)
  obtain b p1 w1 where i: "initialise p w = ((b, p1), w1)" by (metis prod.exhaust)
  obtain ps2 c2 w2 where r: "initialise_all ps (if b then c + 1 else c) w1 = ((ps2, c2), w2)"
    by (metis prod.exhaust)
  from Cons.prems(2) a i r have eq: "ps' = (n, p1) # ps2" by simp
  from Cons.prems(1) a have "probe_safe p" "\<forall>(n, p) \<in> set ps. probe_safe p" by auto
  with initialise_safe [OF _ i] Cons.IH [OF _ r] eq show ?case by auto
qed

lemma update_safe:
  "\<forall>(n, p) \<in> set ps. probe_safe p \<Longrightarrow> probe_safe v \<Longrightarrow>
   \<forall>(n, p) \<in> set (AList.update k v ps). probe_safe p"
  by (induction ps) auto

lemma register_provider_safe:
  assumes "register_provider c n pcs ps = Inr ps'" and "\<forall>(n, p) \<in> set ps. probe_safe p"
  shows "\<forall>(n, p) \<in> set ps'. probe_safe p"
proof (cases "py_in n pcs")
  case (Inl e)
  with assms(1) show ?thesis by (simp add: register_provider_def rbind_def)
next
  case present: (Inr b)
  show ?thesis
  proof (cases b)
    case False
    with present assms show ?thesis by (simp add: register_provider_def rbind_def)
  next
    case True
    show ?thesis
    proof (cases "py_getitem pcs n")
      case (Inl e)
      with present True assms(1) show ?thesis by (simp add: register_provider_def rbind_def)
    next
      case (Inr cfg)
      have "probe_safe (ModelProvider_init c n cfg)"
        by (simp add: probe_safe_def ModelProvider_init_def)
      from update_safe [OF assms(2) this, of n] present True Inr assms(1) show ?thesis
        by (simp add: register_provider_def rbind_def)
    qed
  qed
qed

lemma pipeline_initialise_safe:
  assumes safe: "\<forall>(n, p) \<in> set (providers self). probe_safe p"
    and init: "MultiModelPipeline_initialise self w = ((r, self'), w')"
  shows "\<forall>(n, p) \<in> set (providers self'). probe_safe p"
proof (cases "py_get (pipeline_config self) ''providers'' (JDict [])")
  case (Inl e)
  with init safe show ?thesis by (simp add: MultiModelPipeline_initialise_def)
next
  case pcs: (Inr pcs)
  show ?thesis
  proof (cases "register_provider GroqProvider ''groq'' pcs (providers self)")
    case (Inl e)
    with pcs init safe show ?thesis by (simp add: MultiModelPipeline_initialise_def)
  next
    case r1: (Inr ps1)
    note s1 = register_provider_safe [OF r1 safe]
    show ?thesis
    proof (cases "register_provider MistralCodestralProvider ''mistral_codestral'' pcs ps1")
      case (Inl e)
      with pcs r1 init have "providers self' = ps1"
        by (auto simp: MultiModelPipeline_initialise_def)
      with s1 show ?thesis by simp
    next
      case r2: (Inr ps2)
      note s2 = register_provider_safe [OF r2 s1]
      show ?thesis
      proof (cases "register_provider OpenRouterProvider ''openrouter'' pcs ps2")
        case (Inl e)
        with pcs r1 r2 init have "providers self' = ps2"
          by (auto simp: MultiModelPipeline_initialise_def)
        with s2 show ?thesis by simp
      next
        case r3: (Inr ps3)
        note s3 = register_provider_safe [OF r3 s2]
        show ?thesis
        proof (cases "register_provider HuggingFaceProvider ''huggingface'' pcs ps3")
          case (Inl e)
          with pcs r1 r2 r3 init have "providers self' = ps3"
            by (auto simp: MultiModelPipeline_initialise_def)
          with s3 show ?thesis by simp
        next
          case r4: (Inr ps4)
          note s4 = register_provider_safe [OF r4 s3]
          obtain ps5 c w5 where ia: "initialise_all ps4 0 w = ((ps5, c), w5)"
            by (metis prod.exhaust)
          with pcs r1 r2 r3 r4 init have "providers self' = ps5"
            by (auto simp: MultiModelPipeline_initialise_def)
          with initialise_all_safe [OF s4 ia] show ?thesis by simp
        qed
      qed
    qed
  qed
qed

lemma health_loop_returns:
  "\<forall>(n, p) \<in> set ps. probe_safe p \<Longrightarrow>
   \<exists>hs' tr w'. health_loop ps hs w = ((Inr hs', tr), w') \<and> (\<forall>c \<in> set tr. \<exists>b. snd c = Inr b)"
proof (induction ps arbitrary: hs w)
  case Nil
  then show ?case by simp
next
  case (Cons a ps)
  obtain n p where a: "a = (n, p)" by (cases a)
  from Cons.prems a have safe: "probe_safe p" and rest: "\<forall>(n, p) \<in> set ps. probe_safe p"
    by auto
  show ?case
  proof (cases "available p")
    case False
    with a Cons.IH [OF rest] show ?thesis by simp
  next
    case True
    with safe have "returns (test_connection p)"
      by (simp add: probe_safe_def test_connection_returns)
    then obtain b w1 where tc: "test_connection p w = (Inr b, w1)"
      unfolding returns_def by blast
    from Cons.IH [OF rest, of "record_health n p b hs" w1]
    obtain hs' tr w' where
      "health_loop ps (record_health n p b hs) w1 = ((Inr hs', tr), w')"
      "\<forall>c \<in> set tr. \<exists>b. snd c = Inr b"
      by blast
    with a True tc show ?thesis by simp
  qed
qed

lemma cleanup_frame:
  "cleanup p w = (e, rel, p') \<Longrightarrow>
   available p' = available p \<and> cls p' = cls p \<and> config p' = config p \<and> name p' = name p"
  by (auto simp: cleanup_def split: option.splits prod.splits)

lemma shutdown_loop_frame:
  "shutdown_loop ps w = (e, rels, ps') \<Longrightarrow>
   map (\<lambda>(n, p). (n, available p, cls p, config p)) ps' =
   map (\<lambda>(n, p). (n, available p, cls p, config p)) ps"
proof (induction ps arbitrary: e rels ps')
  case Nil
  then show ?case by simp
next
  case (Cons a ps)
  obtain n p where a: "a = (n, p)" by (cases a)
  obtain e1 rel p1 where c: "cleanup p w = (e1, rel, p1)" by (metis prod.exhaust)
  note f = cleanup_frame [OF c]
  show ?case
  proof (cases e1)
    case (Some x)
    with a c Cons.prems f show ?thesis by auto
  next
    case None
    obtain e2 rels2 ps2 where r: "shutdown_loop ps w = (e2, rels2, ps2)" by (metis prod.exhaust)
    from Cons.IH [OF r] a c None r Cons.prems f show ?thesis by auto
  qed
qed

lemma frame_safe:
  assumes "map (\<lambda>(n, p). (n, available p, cls p, config p)) ps' =
           map (\<lambda>(n, p). (n, available p, cls p, config p)) ps"
    and "\<forall>(n, p) \<in> set ps. probe_safe p"
  shows "\<forall>(n, p) \<in> set ps'. probe_safe p"
proof -
  have "probe_safe p'" if "(n', p') \<in> set ps'" for n' p'
  proof -
    from that have "(n', available p', cls p', config p') \<in>
        set (map (\<lambda>(n, p). (n, available p, cls p, config p)) ps')"
      by force
    with assms(1) obtain n p where "(n, p) \<in> set ps"
      "available p' = available p" "cls p' = cls p" "config p' = config p"
      by auto
    with assms(2) show ?thesis by (auto simp: probe_safe_def)
  qed
  then show ?thesis by auto
qed

lemma frame_sticky:
  "map (\<lambda>(n, p). (n, available p, cls p, config p)) ps' =
   map (\<lambda>(n, p). (n, available p, cls p, config p)) ps \<Longrightarrow>
   map (\<lambda>(n, p). (n, available p)) ps' = map (\<lambda>(n, p). (n, available p)) ps"
proof (induction ps arbitrary: ps')
  case Nil
  then show ?case by simp
next
  case (Cons a ps)
  then show ?case by (cases ps') (auto split: prod.splits)
qed

lemma step_safe:
  assumes "\<forall>(n, p) \<in> set (providers (fst s)). probe_safe p"
  shows "\<forall>(n, p) \<in> set (providers (fst (step c s))). probe_safe p"
proof -
  obtain self w where s: "s = (self, w)" by (cases s)
  show ?thesis
  proof (cases c)
    case Initialise
    obtain r self' w' where i: "MultiModelPipeline_initialise self w = ((r, self'), w')"
      by (metis prod.exhaust)
    from pipeline_initialise_safe [OF _ i] assms s i Initialise show ?thesis by simp
  next
    case Shutdown
    obtain e rels ps where l: "shutdown_loop (providers self) w = (e, rels, ps)"
      by (metis prod.exhaust)
    from frame_safe [OF shutdown_loop_frame [OF l]] assms s l Shutdown show ?thesis
      by (simp add: shutdown_def)
  qed (use assms s in simp_all)
qed

lemma run_safe:
  "\<forall>(n, p) \<in> set (providers (fst s)). probe_safe p \<Longrightarrow>
   \<forall>(n, p) \<in> set (providers (fst (run cs s))). probe_safe p"
proof (induction cs arbitrary: s)
  case Nil
  then show ?case by simp
next
  case (Cons c cs)
  from Cons.IH [OF step_safe [OF Cons.prems, of c]] show ?case by simp
qed

lemmas probe_defs =
  test_connection_def GroqProvider_test_connection_def OpenRouterProvider_test_connection_def
  MistralCodestralProvider_test_connection_def HuggingFaceProvider_test_connection_def
  demo_pipeline_def demo_groq_def demo_openrouter_def demo_codestral_def
  OpenRouter_headers_def offline_world_def demo_world_def demo_session_def demo_ok_def
  demo_busy_def demo_body_def rbind_def iobind_def iolift_def ioreturn_def ioraise_def
  iocatch_def format_value_def session_post_attr_def aio_post_def bearer_headers_def

lemma demo_initialised:
  "fst (run [Initialise] (MultiModelPipeline_init demo_config, demo_world)) =
     \<lparr>pipeline_config = demo_config,
      providers = [(''groq'', demo_groq), (''openrouter'', demo_openrouter\<lparr>available := False\<rparr>)],
      routing_strategy = create_routing_strategy\<rparr>"
  by (simp add: MultiModelPipeline_init_def MultiModelPipeline_initialise_def demo_config_def
      register_provider_def ModelProvider_init_def initialise_def probe_defs)

lemma demo_initialised_health:
  "fst (health_check
         \<lparr>pipeline_config = demo_config,
          providers = [(''groq'', demo_groq), (''openrouter'', demo_openrouter\<lparr>available := False\<rparr>)],
          routing_strategy = create_routing_strategy\<rparr>
        offline_world) =
     (Inr \<lparr>total_providers = 2, available_providers = 0,
           providers_detail =
             [(''groq'', \<lparr>reported_available = True, healthy = False\<rparr>),
              (''openrouter'', \<lparr>reported_available = False, healthy = False\<rparr>)]\<rparr>,
      [(''groq'', Inr False)])"
  by (simp add: health_check_def record_health_def probe_defs)

lemma catch_False:
  "stalls m w \<Longrightarrow> fst (iocatch m (\<lambda>e. ioreturn False) w) = Inr False"
  by (cases "m w") (auto simp: stalls_def iocatch_def ioreturn_def split: sum.splits)

lemma stalls_lift: "(\<And>x. stalls (k x) w) \<Longrightarrow> stalls (iobind (iolift r) k) w"
  by (cases r) (auto simp: stalls_def iobind_def iolift_def)

lemma stalls_format: "(\<And>x. stalls (k x) w) \<Longrightarrow> stalls (iobind (format_value v) k) w"
  by (auto simp: stalls_def iobind_def format_value_def)

lemma stalls_attr: "(\<And>x. stalls (k x) w) \<Longrightarrow> stalls (iobind (session_post_attr p) k) w"
  by (auto simp: stalls_def iobind_def session_post_attr_def ioraise_def ioreturn_def
      split: option.splits)

lemma stalls_post: "isl (net w (length (posts w)) rq) \<Longrightarrow> stalls (iobind (aio_post rq) k) w"
  by (cases "net w (length (posts w)) rq") (auto simp: stalls_def iobind_def aio_post_def)

lemmas stalls_intros = stalls_lift stalls_format stalls_attr stalls_post

lemma probe_fault_is_False:
  assumes "cls p \<noteq> ModelProviderBase" and "is_dict (config p)"
    and net: "\<forall>rq. isl (net w (length (posts w)) rq)"
  shows "fst (test_connection p w) = Inr False"
proof -
  from assms(2) obtain d where d: "config p = JDict d" by (auto dest: is_dictE)
  have first: "iobind (iolift (py_get (config p) ''api_key'' JNull)) k = 
      k (case map_of d ''api_key'' of None \<Rightarrow> JNull | Some v \<Rightarrow> v)" for k :: "json \<Rightarrow> bool io"
    by (simp add: d iolift_Inr iobind_ioreturn)
  have ret: "fst (ioreturn False w) = Inr False" by (simp add: ioreturn_def)
  show ?thesis
  proof (cases "cls p")
    case ModelProviderBase
    with assms(1) show ?thesis by simp
  next
    case GroqProvider
    show ?thesis
      unfolding test_connection_def GroqProvider GroqProvider_test_connection_def first
      by (auto simp: ret intro!: catch_False stalls_intros net [rule_format])
  next
    case MistralCodestralProvider
    show ?thesis
      unfolding test_connection_def MistralCodestralProvider
        MistralCodestralProvider_test_connection_def first
      by (auto simp: ret intro!: catch_False stalls_intros net [rule_format])
  next
    case OpenRouterProvider
    show ?thesis
      unfolding test_connection_def OpenRouterProvider OpenRouterProvider_test_connection_def first
      by (auto simp: ret intro!: catch_False stalls_intros net [rule_format])
  next
    case HuggingFaceProvider
    show ?thesis
      unfolding test_connection_def HuggingFaceProvider HuggingFaceProvider_test_connection_def first
      by (auto simp: ret intro!: catch_False stalls_intros net [rule_format])
  qed
qed

text \<open>
  In a pipeline built by the constructor and taken through any sequence of calls of its
  methods, every adapter whose sticky flag is set is one of the four backends with a
  dictionary as configuration, and the probes of those contain their own faults. There the
  health check returns its report in every world, every probe it ran returned a flag, and a
  probe whose request faults answers \<^verbatim>\<open>False\<close>.
\<close>

lemma reachable_health_check_returns:
  "(\<exists>hs tr w''.
      health_check (fst (run cs (MultiModelPipeline_init cfg, w))) w' = ((Inr hs, tr), w'') \<and>
      (\<forall>c \<in> set tr. \<exists>b. snd c = Inr b)) \<and>
   (\<forall>(n, p) \<in> set (providers (fst (run cs (MultiModelPipeline_init cfg, w)))).
      available p \<longrightarrow>
      (\<forall>w2. (\<forall>rq. isl (net w2 (length (posts w2)) rq)) \<longrightarrow>
            fst (test_connection p w2) = Inr False))"
proof -
  let ?self = "fst (run cs (MultiModelPipeline_init cfg, w))"
  have "\<forall>(n, p) \<in> set (providers (fst (MultiModelPipeline_init cfg, w))). probe_safe p"
    by (simp add: MultiModelPipeline_init_def)
  then have safe: "\<forall>(n, p) \<in> set (providers ?self). probe_safe p"
    by (rule run_safe)
  from health_loop_returns [OF safe]
  have "\<exists>hs tr w''. health_check ?self w' = ((Inr hs, tr), w'') \<and>
      (\<forall>c \<in> set tr. \<exists>b. snd c = Inr b)"
    by (simp add: health_check_def)
  moreover have "fst (test_connection p w2) = Inr False"
    if "(n, p) \<in> set (providers ?self)" "available p"
      "\<forall>rq. isl (net w2 (length (posts w2)) rq)" for n p w2
  proof -
    from safe that(1,2) have "cls p \<noteq> ModelProviderBase" "is_dict (config p)"
      by (auto simp: probe_safe_def)
    then show ?thesis using that(3) by (rule probe_fault_is_False)
  qed
  ultimately show ?thesis by blast
qed

lemma reachable_health_check_returns_example:
  "fst (health_check (fst (run [Initialise] (MultiModelPipeline_init demo_config, demo_world)))
        offline_world) =
     (Inr \<lparr>total_providers = 2, available_providers = 0,
           providers_detail =
             [(''groq'', \<lparr>reported_available = True, healthy = False\<rparr>),
              (''openrouter'', \<lparr>reported_available = False, healthy = False\<rparr>)]\<rparr>,
      [(''groq'', Inr False)])"
proof -
  from reachable_health_check_returns [of "[Initialise]" demo_config demo_world offline_world]
  have "\<exists>hs tr w''.
      health_check (fst (run [Initialise] (MultiModelPipeline_init demo_config, demo_world)))
        offline_world = ((Inr hs, tr), w'')"
    by blast
  then show ?thesis
    unfolding demo_initialised by (simp add: demo_initialised_health)
qed


section \<open>The health check does not contain a probe that raises\<close>

lemma health_loop_propagates:
  "available p \<Longrightarrow> test_connection p w = (Inl e, w') \<Longrightarrow>
   health_loop ((n, p) # rest) hs w = ((Inl e, [(n, Inl e)]), w')"
  by simp

lemma connectivity_loop_contains:
  "test_connection p w = (Inl e, w') \<Longrightarrow>
   connectivity_loop ((n, p) # rest) cs w =
     connectivity_loop rest
       (AList.update n \<lparr>connected = False,
          connectivity_error = Some (case e of Exception m \<Rightarrow> m | _ \<Rightarrow> str_exn w' e)\<rparr> cs) w'"
  by (simp add: str_of_exn_def)

text \<open>
  Claim C6 says that \<^verbatim>\<open>MultiModelPipeline.health_check\<close> never raises: a fault raised by
  the \<^verbatim>\<open>test_connection\<close> of a registered adapter is recorded as that adapter being
  unhealthy and not passed on to the caller. The source does not do so. The loop of
  \<^verbatim>\<open>health_check\<close> awaits the probe with no \<^verbatim>\<open>try\<close> around it, while the loop of
  \<^verbatim>\<open>check_api_connectivity\<close> has one. On a registry whose first adapter has its sticky flag
  set and a probe that raises, the health check ends at that probe and returns the
  exception, with no report and the second adapter not probed; the connectivity check, on the
  same registry in the same world, records the fault for that adapter and goes on to the
  next.
\<close>

theorem health_check_propagates_probe_fault:
  "health_check unguarded_pipeline demo_world =
     ((Inl NotImplementedError, [(''custom'', Inl NotImplementedError)]), demo_world) \<and>
   fst (check_api_connectivity unguarded_pipeline demo_world) =
     [(''custom'', \<lparr>connected = False, connectivity_error = Some ''fault''\<rparr>),
      (''groq'', \<lparr>connected = True, connectivity_error = None\<rparr>)]"
  by (simp add: health_check_def check_api_connectivity_def unguarded_pipeline_def
      unguarded_adapter_def str_of_exn_def probe_defs)

section \<open>The sticky flag\<close>

lemma step_sticky:
  "c \<noteq> Initialise \<Longrightarrow> sticky_flags (fst (step c s)) = sticky_flags (fst s)"
proof (cases c)
  case Shutdown
  obtain self w where s: "s = (self, w)" by (cases s)
  obtain e rels ps where l: "shutdown_loop (providers self) w = (e, rels, ps)"
    by (metis prod.exhaust)
  from frame_sticky [OF shutdown_loop_frame [OF l]] s l Shutdown show ?thesis
    by (simp add: shutdown_def sticky_flags_def)
qed (cases s; simp)+

text \<open>
  Claim C7. The sticky flag \<open>available\<close> of an adapter is written by initialisation only:
  after any sequence of calls of \<^verbatim>\<open>generate_response\<close>, \<^verbatim>\<open>health_check\<close>,
  \<^verbatim>\<open>check_api_connectivity\<close> and \<^verbatim>\<open>shutdown\<close> every registered adapter has the flag it had
  before. (\<open>test_connection\<close> returns a flag and a world, no adapter: it assigns nothing.)
\<close>

theorem sticky_flag_written_by_initialise_only:
  "Initialise \<notin> set cs \<Longrightarrow> sticky_flags (fst (run cs (self, w))) = sticky_flags self"
proof (induction cs arbitrary: self w)
  case Nil
  then show ?case by simp
next
  case (Cons c cs)
  obtain self1 w1 where s: "step c (self, w) = (self1, w1)" by (cases "step c (self, w)")
  from Cons.prems have "c \<noteq> Initialise" "Initialise \<notin> set cs" by auto
  with step_sticky [of c "(self, w)"] Cons.IH [of self1 w1] s show ?case by simp
qed

theorem sticky_flag_written_by_initialise_only_witness:
  "Initialise \<notin> set [HealthCheck, CheckApiConnectivity, GenerateResponse ''hi'' GENERAL [], Shutdown] \<and>
   sticky_flags (fst (run [HealthCheck, CheckApiConnectivity, GenerateResponse ''hi'' GENERAL [],
       Shutdown] (demo_pipeline, demo_world))) =
     [(''groq'', True), (''mistral_codestral'', False), (''openrouter'', True)]"
proof -
  have h: "Initialise \<notin> set [HealthCheck, CheckApiConnectivity, GenerateResponse ''hi'' GENERAL [],
     Shutdown]" by simp
  have "sticky_flags demo_pipeline =
     [(''groq'', True), (''mistral_codestral'', False), (''openrouter'', True)]"
    by (simp add: sticky_flags_def demo_pipeline_def demo_groq_def demo_codestral_def
        demo_openrouter_def)
  with sticky_flag_written_by_initialise_only [OF h, of demo_pipeline demo_world] h show ?thesis by simp
qed

section \<open>Shutdown\<close>

lemma cleanup_closed:
  assumes "close_idempotent w" and "\<not> session_open p"
  shows "cleanup p w = (None, False, p)"
proof (cases "session p")
  case None
  then show ?thesis by (simp add: cleanup_def)
next
  case (Some s)
  with assms(2) have "closed s" by (simp add: session_open_def)
  with assms(1) have "aio_close w s = (None, s)" by (simp add: close_idempotent_def)
  moreover have "p\<lparr>session := Some s\<rparr> = p" using Some by simp
  ultimately show ?thesis using Some \<open>closed s\<close> by (simp add: cleanup_def)
qed

lemma cleanup_first:
  assumes "close_idempotent w" and "cleanup p w = (None, rel, p')"
  shows "\<not> session_open p' \<and> rel = session_open p"
proof (cases "session p")
  case None
  with assms(2) show ?thesis by (auto simp: cleanup_def session_open_def)
next
  case (Some s)
  obtain e s' where c: "aio_close w s = (e, s')" by (cases "aio_close w s")
  with Some assms(2) have e: "e = None" and rel: "rel = (\<not> closed s \<and> closed s')"
    and p': "p' = p\<lparr>session := Some s'\<rparr>"
    by (auto simp: cleanup_def)
  from assms(1) c e have "closed s'"
    by (metis close_idempotent_def fst_conv snd_conv)
  with rel p' Some show ?thesis by (simp add: session_open_def)
qed

lemma shutdown_loop_first:
  "close_idempotent w \<Longrightarrow> shutdown_loop ps w = (None, rels, ps') \<Longrightarrow>
   rels = map fst (filter (\<lambda>(n, p). session_open p) ps) \<and>
   (\<forall>(n, p) \<in> set ps'. \<not> session_open p)"
proof (induction ps arbitrary: rels ps')
  case Nil
  then show ?case by simp
next
  case (Cons a ps)
  obtain n p where a: "a = (n, p)" by (cases a)
  obtain e1 rel p1 where c: "cleanup p w = (e1, rel, p1)" by (metis prod.exhaust)
  show ?case
  proof (cases e1)
    case (Some x)
    with a c Cons.prems(2) show ?thesis by simp
  next
    case None
    obtain e2 rels2 ps2 where r: "shutdown_loop ps w = (e2, rels2, ps2)" by (metis prod.exhaust)
    with a c None Cons.prems(2) have eq: "e2 = None" "rels = (if rel then [n] else []) @ rels2"
      "ps' = (n, p1) # ps2" by auto
    from cleanup_first [OF Cons.prems(1)] c None
    have "\<not> session_open p1" "rel = session_open p" by auto
    with Cons.IH [OF Cons.prems(1), of rels2 ps2] r eq a show ?thesis by auto
  qed
qed

lemma shutdown_loop_second:
  "close_idempotent w \<Longrightarrow> \<forall>(n, p) \<in> set ps. \<not> session_open p \<Longrightarrow>
   shutdown_loop ps w = (None, [], ps)"
proof (induction ps)
  case Nil
  then show ?case by simp
next
  case (Cons a ps)
  obtain n p where a: "a = (n, p)" by (cases a)
  with Cons.prems have "\<not> session_open p" "\<forall>(n, p) \<in> set ps. \<not> session_open p" by auto
  with cleanup_closed [OF Cons.prems(1), of p] Cons.IH [OF Cons.prems(1)] a show ?case by simp
qed

lemma demo_close_idempotent: "close_idempotent demo_world"
  by (simp add: close_idempotent_def demo_world_def)

lemma demo_shutdown:
  "shutdown demo_pipeline demo_world =
     (None, [''groq'', ''mistral_codestral'', ''openrouter''],
      demo_pipeline\<lparr>providers :=
        [(''groq'', demo_groq\<lparr>session := Some (demo_session\<lparr>closed := True\<rparr>)\<rparr>),
         (''mistral_codestral'', demo_codestral\<lparr>session := Some (demo_session\<lparr>closed := True\<rparr>)\<rparr>),
         (''openrouter'', demo_openrouter\<lparr>session := Some (demo_session\<lparr>closed := True\<rparr>)\<rparr>)]\<rparr>)"
  by (simp add: shutdown_def cleanup_def demo_pipeline_def demo_groq_def demo_codestral_def
      demo_openrouter_def demo_session_def demo_world_def)

text \<open>
  Claim C9. \<^verbatim>\<open>ModelProvider.cleanup\<close> calls \<^verbatim>\<open>close()\<close> on the session at every call and
  leaves the attribute in place, so whether a second call is harmless is up to the transport
  library. With a library whose \<^verbatim>\<open>close()\<close> is idempotent, after a shutdown that returned,
  a second shutdown returns too, raises nothing, releases no session and leaves the pipeline
  as it is; the first released each session that was open, once.
\<close>

theorem shutdown_twice_releases_once:
  assumes "close_idempotent w" and "close_idempotent w2"
    and "shutdown self w = (None, rels, self')"
  shows "shutdown self' w2 = (None, [], self') \<and>
         rels = map fst (filter (\<lambda>(n, p). session_open p) (providers self))"
proof -
  obtain e rs ps where l: "shutdown_loop (providers self) w = (e, rs, ps)"
    by (metis prod.exhaust)
  with assms(3) have eq: "e = None" "rs = rels" "self' = self\<lparr>providers := ps\<rparr>"
    by (auto simp: shutdown_def)
  from shutdown_loop_first [OF assms(1)] l eq
  have 1: "rels = map fst (filter (\<lambda>(n, p). session_open p) (providers self))"
    and 2: "\<forall>(n, p) \<in> set ps. \<not> session_open p" by auto
  from shutdown_loop_second [OF assms(2) 2] eq have "shutdown self' w2 = (None, [], self')"
    by (simp add: shutdown_def)
  with 1 show ?thesis by simp
qed

theorem shutdown_twice_releases_once_witness:
  "close_idempotent demo_world \<and>
   fst (shutdown demo_pipeline demo_world) = None \<and>
   fst (snd (shutdown demo_pipeline demo_world)) = [''groq'', ''mistral_codestral'', ''openrouter''] \<and>
   shutdown (snd (snd (shutdown demo_pipeline demo_world))) demo_world =
     (None, [], snd (snd (shutdown demo_pipeline demo_world)))"
proof -
  let ?s = "shutdown demo_pipeline demo_world"
  have first: "?s = (None, fst (snd ?s), snd (snd ?s))" by (simp add: demo_shutdown)
  from shutdown_twice_releases_once [OF demo_close_idempotent demo_close_idempotent first]
  have "shutdown (snd (snd ?s)) demo_world = (None, [], snd (snd ?s))" by blast
  then show ?thesis by (simp add: demo_close_idempotent demo_shutdown)
qed

section \<open>The health report\<close>

lemma health_loop_counts:
  "health_loop ps hs w = ((Inr hs', tr), w') \<Longrightarrow>
   map fst tr = map fst (filter (\<lambda>(n, p). available p) ps) \<and>
   available_providers hs' = available_providers hs + length (filter (\<lambda>c. snd c = Inr True) tr) \<and>
   total_providers hs' = total_providers hs"
proof (induction ps arbitrary: hs w hs' tr w')
  case Nil
  then show ?case by auto
next
  case (Cons a ps)
  obtain n p where a: "a = (n, p)" by (cases a)
  show ?case
  proof (cases "available p")
    case False
    with a Cons.prems have "health_loop ps (record_health n p False hs) w = ((Inr hs', tr), w')"
      by simp
    from Cons.IH [OF this] a False show ?thesis by (simp add: record_health_def)
  next
    case True
    obtain r w1 where tc: "test_connection p w = (r, w1)" by (cases "test_connection p w")
    show ?thesis
    proof (cases r)
      case (Inl e)
      with a True tc Cons.prems show ?thesis by simp
    next
      case (Inr b)
      obtain r2 tr2 w2 where l: "health_loop ps (record_health n p b hs) w1 = ((r2, tr2), w2)"
        by (metis prod.exhaust)
      with a True tc Inr Cons.prems have eq: "r2 = Inr hs'" "tr = (n, Inr b) # tr2" by auto
      from Cons.IH [OF l [unfolded eq(1)]] a True eq show ?thesis
        by (simp add: record_health_def)
    qed
  qed
qed

lemma health_loop_detail_frame:
  "health_loop ps hs w = ((Inr hs', tr), w') \<Longrightarrow> n \<notin> fst ` set ps \<Longrightarrow>
   map_of (providers_detail hs') n = map_of (providers_detail hs) n"
proof (induction ps arbitrary: hs w hs' tr w')
  case Nil
  then show ?case by auto
next
  case (Cons a ps)
  obtain m p where a: "a = (m, p)" by (cases a)
  with Cons.prems(2) have ne: "m \<noteq> n" "n \<notin> fst ` set ps" by auto
  show ?case
  proof (cases "available p")
    case False
    with a Cons.prems have "health_loop ps (record_health m p False hs) w = ((Inr hs', tr), w')"
      by simp
    from Cons.IH [OF this ne(2)] ne(1) show ?thesis
      by (simp add: record_health_def update_conv')
  next
    case True
    obtain r w1 where tc: "test_connection p w = (r, w1)" by (cases "test_connection p w")
    show ?thesis
    proof (cases r)
      case (Inl e)
      with a True tc Cons.prems show ?thesis by simp
    next
      case (Inr b)
      obtain r2 tr2 w2 where l: "health_loop ps (record_health m p b hs) w1 = ((r2, tr2), w2)"
        by (metis prod.exhaust)
      with a True tc Inr Cons.prems have eq: "r2 = Inr hs'" by auto
      from Cons.IH [OF l [unfolded eq] ne(2)] ne(1) show ?thesis
        by (simp add: record_health_def update_conv')
    qed
  qed
qed

lemma health_loop_report:
  "health_loop ps hs w = ((Inr hs', tr), w') \<Longrightarrow> distinct (map fst ps) \<Longrightarrow>
   (n, p) \<in> set ps \<Longrightarrow>
   map_of (providers_detail hs') n =
     Some \<lparr>reported_available = available p, healthy = ((n, Inr True) \<in> set tr)\<rparr> \<and>
   (\<not> available p \<longrightarrow> n \<notin> fst ` set tr)"
proof (induction ps arbitrary: hs w hs' tr w')
  case Nil
  then show ?case by auto
next
  case (Cons a ps)
  obtain m q where a: "a = (m, q)" by (cases a)
  from Cons.prems(2) a have dist: "m \<notin> fst ` set ps" "distinct (map fst ps)" by auto
  obtain r w1 where tc: "(if available q then test_connection q w else (Inr False, w)) = (r, w1)"
    by (metis prod.exhaust)
  show ?case
  proof (cases r)
    case (Inl e)
    with a tc Cons.prems(1) show ?thesis by (auto split: if_splits)
  next
    case (Inr b)
    obtain r2 tr2 w2 where l: "health_loop ps (record_health m q b hs) w1 = ((r2, tr2), w2)"
      by (metis prod.exhaust)
    with a tc Inr Cons.prems(1) have eq: "r2 = Inr hs'"
      "tr = (if available q then [(m, Inr b)] else []) @ tr2"
      "\<not> available q \<longrightarrow> \<not> b"
      by (auto split: if_splits)
    note l' = l [unfolded eq(1)]
    from health_loop_counts [OF l'] have names: "fst ` set tr2 \<subseteq> fst ` set ps"
      by (metis (no_types, lifting) filter_is_subset image_mono list.set_map)
    show ?thesis
    proof (cases "n = m")
      case True
      with Cons.prems(3) a dist have pq: "p = q" by force
      from names dist True have notin: "n \<notin> fst ` set tr2" by auto
      then have notin': "(n, Inr True) \<notin> set tr2" by force
      from health_loop_detail_frame [OF l' dist(1)] True
      have "map_of (providers_detail hs') n =
          Some \<lparr>reported_available = available q, healthy = b\<rparr>"
        by (simp add: record_health_def update_conv')
      with pq eq True notin notin' show ?thesis by auto
    next
      case False
      with Cons.prems(3) a have "(n, p) \<in> set ps" by auto
      from Cons.IH [OF l' dist(2) this] eq False show ?thesis by auto
    qed
  qed
qed

lemma demo_health_check:
  "fst (health_check demo_pipeline demo_world) =
     (Inr \<lparr>total_providers = 3, available_providers = 1,
           providers_detail =
             [(''groq'', \<lparr>reported_available = True, healthy = True\<rparr>),
              (''mistral_codestral'', \<lparr>reported_available = False, healthy = False\<rparr>),
              (''openrouter'', \<lparr>reported_available = True, healthy = False\<rparr>)]\<rparr>,
      [(''groq'', Inr True), (''openrouter'', Inr False)])"
  by (simp add: health_check_def record_health_def probe_defs)

text \<open>
  Claim C10. When \<^verbatim>\<open>health_check\<close> returns, its count \<^verbatim>\<open>available_providers\<close> is the
  number of probes of this call that returned \<^verbatim>\<open>True\<close>; the probes were run on exactly the
  adapters whose sticky flag is set, in registry order; and each adapter is reported with its
  sticky flag and with \<open>healthy\<close> set iff its probe returned \<^verbatim>\<open>True\<close>, so an adapter whose
  sticky flag is not set is reported unhealthy without a probe. The names of a registry are
  distinct, being the keys of a dictionary.
\<close>

theorem health_check_counts_live_probes:
  assumes "health_check self w = ((Inr hs, tr), w')"
    and "distinct (map fst (providers self))"
  shows "available_providers hs = length (filter (\<lambda>c. snd c = Inr True) tr) \<and>
         map fst tr = map fst (filter (\<lambda>(n, p). available p) (providers self)) \<and>
         (\<forall>(n, p) \<in> set (providers self).
            map_of (providers_detail hs) n =
              Some \<lparr>reported_available = available p, healthy = ((n, Inr True) \<in> set tr)\<rparr> \<and>
            (\<not> available p \<longrightarrow> n \<notin> fst ` set tr \<and> (n, Inr True) \<notin> set tr))"
proof -
  from assms(1) have l: "health_loop (providers self)
       \<lparr>total_providers = length (providers self), available_providers = 0,
        providers_detail = []\<rparr> w = ((Inr hs, tr), w')"
    by (simp add: health_check_def)
  from health_loop_counts [OF l] health_loop_report [OF l assms(2)] show ?thesis
    by force
qed

theorem health_check_counts_live_probes_witness:
  "distinct (map fst (providers demo_pipeline)) \<and>
   fst (health_check demo_pipeline demo_world) =
     (Inr \<lparr>total_providers = 3, available_providers = 1,
           providers_detail =
             [(''groq'', \<lparr>reported_available = True, healthy = True\<rparr>),
              (''mistral_codestral'', \<lparr>reported_available = False, healthy = False\<rparr>),
              (''openrouter'', \<lparr>reported_available = True, healthy = False\<rparr>)]\<rparr>,
      [(''groq'', Inr True), (''openrouter'', Inr False)]) \<and>
   map fst (snd (fst (health_check demo_pipeline demo_world))) = [''groq'', ''openrouter'']"
proof -
  let ?h = "health_check demo_pipeline demo_world"
  have d: "distinct (map fst (providers demo_pipeline))" by (simp add: demo_pipeline_def)
  have run: "?h = ((Inr \<lparr>total_providers = 3, available_providers = 1,
           providers_detail =
             [(''groq'', \<lparr>reported_available = True, healthy = True\<rparr>),
              (''mistral_codestral'', \<lparr>reported_available = False, healthy = False\<rparr>),
              (''openrouter'', \<lparr>reported_available = True, healthy = False\<rparr>)]\<rparr>,
            snd (fst ?h)), snd ?h)"
    using demo_health_check by (metis fst_conv prod.collapse)
  from health_check_counts_live_probes [OF run d]
  have "map fst (snd (fst ?h)) = map fst (filter (\<lambda>(n, p). available p) (providers demo_pipeline))"
    by blast
  then have "map fst (snd (fst ?h)) = [''groq'', ''openrouter'']"
    by (simp add: demo_pipeline_def demo_groq_def demo_codestral_def demo_openrouter_def)
  with d demo_health_check show ?thesis by simp
qed

end
